theory Spec2Isabelle
  imports Main
begin

section \<open>Strings\<close>

text \<open>
  Go strings are byte sequences; they are modelled as \<open>string\<close> (a list of \<open>char\<close>).
  \<open>strings.HasPrefix s prefix\<close> is \<open>len(s) >= len(prefix) && s[0:len(prefix)] == prefix\<close>.
\<close>

definition HasPrefix :: "string \<Rightarrow> string \<Rightarrow> bool" where
  "HasPrefix s p = (length p \<le> length s \<and> take (length p) s = p)"

text \<open>
  \<open>strings.Split s sep\<close> for a one-byte separator: the substrings between the
  occurrences of the separator, so \<open>n\<close> occurrences give \<open>n + 1\<close> parts and the empty
  string gives the one part \<open>""\<close>.
\<close>

fun Split :: "string \<Rightarrow> char \<Rightarrow> string list" where
  "Split [] sep = [[]]"
| "Split (c # cs) sep =
     (if c = sep then [] # Split cs sep
      else (case Split cs sep of
              [] \<Rightarrow> [[c]]
            | p # ps \<Rightarrow> (c # p) # ps))"

section \<open>Constants of the command package\<close>

definition creatorParts :: nat where
  "creatorParts = 2"

definition Ed25519Signature2018 :: string where
  "Ed25519Signature2018 = ''Ed25519Signature2018''"

definition JSONWebSignature2020 :: string where
  "JSONWebSignature2020 = ''JsonWebSignature2020''"

definition Ed25519VerificationKey :: string where
  "Ed25519VerificationKey = ''Ed25519VerificationKey''"

section \<open>Identity documents\<close>

text \<open>
  The types of package \<open>did\<close> are declared outside the files at hand; the records below
  hold what the command code reads of them: \<open>didDoc.ID\<close>, \<open>didDoc.PublicKey\<close> (with
  \<open>k.ID\<close> and \<open>k.Type\<close>), \<open>didDoc.Authentication\<close> and \<open>vm.PublicKey.ID\<close>. The
  code reads the authentication methods in a second way, through the accessor
  \<open>didDoc.VerificationMethods(did.Authentication)[did.Authentication]\<close>, which is outside
  the files at hand as well: what it returns for a document is a component of its own.
\<close>

record did_PublicKey =
  pk_ID :: string
  pk_Type :: string

record did_VerificationMethod =
  vm_PublicKey :: did_PublicKey

record did_Doc =
  doc_ID :: string
  doc_PublicKey :: "did_PublicKey list"
  doc_Authentication :: "did_VerificationMethod list"
  doc_VerificationMethods_Authentication :: "did_VerificationMethod list"

section \<open>Errors\<close>

text \<open>
  Every \<open>fmt.Errorf\<close> and \<open>errors.New\<close> of the command code is a constructor; a wrapped
  error (\<open>%w\<close>) keeps the error it wraps. \<open>External\<close> is an error handed back by a
  collaborator (key manager, signer, parser, store). The last four are kinds of the proof
  core's taxonomy; \<open>VerificationError\<close> names the verification method of the proof that
  failed.
\<close>

datatype error =
    WrongID "string list"
  | SignatureTypeUnsupported string
  | FailedToAddLinkedDataProof error
  | NoMatchingVerificationMethod
  | FailedToGetDefaultVerificationMethod error
  | PublicKeyNotFound
  | FailedToSetCredentials error
  | FailedToSignVP error
  | FailedToCreateVPByID error
  | FailedToSignVPByID error
  | NoCredentialsOrPresentation
  | SignatureTypeEmpty
  | ParseCredentialFailed error
  | ParsePresentationFailed error
  | FailedToPrepareProofOptions error
  | FailedToGetDIDDoc error
  | FailedToGetDIDDocFromStore error
  | ParsePresentationRequestFailed error
  | GetVCByIDFailed error
  | PrepareVPFailed error
  | PrepareVPByIDFailed error
  | EmptyCredentialID
  | EmptyDID
  | IndexOutOfRange
  | InvalidInput
  | UnsupportedSuite string
  | VerificationError string
  | SelectiveDisclosureError
  | External string

section \<open>Proof options\<close>

text \<open>
  \<open>ProofOptions\<close> with the fields the command code reads and writes. \<open>Created\<close> is a
  \<open>*time.Time\<close>: an optional instant, here in seconds since the epoch.
\<close>

type_synonym Time = int

record ProofOptions =
  VerificationMethod :: string
  SignatureType :: string
  Created :: "Time option"
  Domain :: string
  Challenge :: string
  proofPurpose :: string

text \<open>The zero value \<open>&ProofOptions{}\<close>.\<close>

definition emptyProofOptions :: ProofOptions where
  "emptyProofOptions =
     \<lparr>VerificationMethod = '''', SignatureType = '''', Created = None,
      Domain = '''', Challenge = '''', proofPurpose = ''''\<rparr>"

section \<open>Resolving the verification method\<close>

definition isDID :: "string \<Rightarrow> bool" where
  "isDID str = HasPrefix str ''did:''"

text \<open>
  The loop of \<open>getDefaultVerificationMethod\<close>: \<open>publicKeyID\<close> starts empty and takes the
  id of the first key whose type has the prefix \<open>Ed25519VerificationKey\<close>, where the loop
  breaks.
\<close>

fun firstEd25519KeyID :: "did_PublicKey list \<Rightarrow> string" where
  "firstEd25519KeyID [] = ''''"
| "firstEd25519KeyID (k # ks) =
     (if HasPrefix (pk_Type k) Ed25519VerificationKey then pk_ID k
      else firstEd25519KeyID ks)"

definition getDefaultVerificationMethod :: "did_Doc \<Rightarrow> error + string" where
  "getDefaultVerificationMethod didDoc =
     (case doc_PublicKey didDoc of
        k0 # ks \<Rightarrow>
          (let found = firstEd25519KeyID (doc_PublicKey didDoc);
               publicKeyID = (if found = '''' then pk_ID k0 else found)
           in if \<not> isDID publicKeyID then Inr (doc_ID didDoc @ publicKeyID)
              else Inr publicKeyID)
      | [] \<Rightarrow>
          (case doc_Authentication didDoc of
             a # as \<Rightarrow> Inr (pk_ID (vm_PublicKey a))
           | [] \<Rightarrow> Inl PublicKeyNotFound))"

text \<open>
  The loop of \<open>prepareOpts\<close> over the authentication methods. Its state is
  \<open>opts.VerificationMethod\<close> and \<open>vmMatched\<close>. With a method given, the loop looks for
  a key id equal to it and breaks at the first one; with none given, it takes the first
  key id and breaks.
\<close>

fun matchAuthVMs :: "string \<Rightarrow> bool \<Rightarrow> did_VerificationMethod list \<Rightarrow> string \<times> bool" where
  "matchAuthVMs vmID vmMatched [] = (vmID, vmMatched)"
| "matchAuthVMs vmID vmMatched (vm # vms) =
     (if vmID \<noteq> '''' then
        (if vmID = pk_ID (vm_PublicKey vm) then (vmID, True)
         else matchAuthVMs vmID vmMatched vms)
      else (pk_ID (vm_PublicKey vm), vmMatched))"

text \<open>
  \<open>prepareOpts\<close> writes through the pointer it is given (or through a fresh
  \<open>ProofOptions\<close> when given \<open>nil\<close>) and returns that pointer or an error. The model
  returns the pair of the options object as the call leaves it and the returned value.
\<close>

definition prepareOpts :: "ProofOptions option \<Rightarrow> did_Doc \<Rightarrow> ProofOptions \<times> (error + ProofOptions)" where
  "prepareOpts opts didDoc =
     (let opts0 = (case opts of None \<Rightarrow> emptyProofOptions | Some p \<Rightarrow> p);
          opts1 = opts0\<lparr>proofPurpose := ''authentication''\<rparr>;
          authVMs = doc_VerificationMethods_Authentication didDoc;
          scanned = matchAuthVMs (VerificationMethod opts1) (VerificationMethod opts1 = '''') authVMs;
          opts2 = opts1\<lparr>VerificationMethod := fst scanned\<rparr>
      in if \<not> snd scanned then (opts2, Inl NoMatchingVerificationMethod)
         else if VerificationMethod opts2 = '''' then
           (case getDefaultVerificationMethod didDoc of
              Inl err \<Rightarrow> (opts2, Inl (FailedToGetDefaultVerificationMethod err))
            | Inr defaultVM \<Rightarrow>
                (let opts3 = opts2\<lparr>VerificationMethod := defaultVM\<rparr> in (opts3, Inr opts3)))
         else (opts2, Inr opts2))"

text \<open>The public-key ids of a list of verification methods, in order.\<close>

definition keyIDs :: "did_VerificationMethod list \<Rightarrow> string list" where
  "keyIDs vms = map (\<lambda>vm. pk_ID (vm_PublicKey vm)) vms"


subsection \<open>Example documents and options\<close>

definition docTwoAuth :: did_Doc where
  "docTwoAuth =
     \<lparr>doc_ID = ''did:example:123'', doc_PublicKey = [],
      doc_Authentication =
        [\<lparr>vm_PublicKey = \<lparr>pk_ID = ''did:example:123#key1'', pk_Type = ''Ed25519VerificationKey2018''\<rparr>\<rparr>,
         \<lparr>vm_PublicKey = \<lparr>pk_ID = ''did:example:123#key2'', pk_Type = ''JwsVerificationKey2020''\<rparr>\<rparr>],
      doc_VerificationMethods_Authentication =
        [\<lparr>vm_PublicKey = \<lparr>pk_ID = ''did:example:123#key1'', pk_Type = ''Ed25519VerificationKey2018''\<rparr>\<rparr>,
         \<lparr>vm_PublicKey = \<lparr>pk_ID = ''did:example:123#key2'', pk_Type = ''JwsVerificationKey2020''\<rparr>\<rparr>]\<rparr>"



definition docFlatKeys :: did_Doc where
  "docFlatKeys =
     \<lparr>doc_ID = ''did:example:123'',
      doc_PublicKey =
        [\<lparr>pk_ID = ''did:example:123#key1'', pk_Type = ''RsaVerificationKey2018''\<rparr>,
         \<lparr>pk_ID = ''#key2'', pk_Type = ''Ed25519VerificationKey2018''\<rparr>],
      doc_Authentication = [],
      doc_VerificationMethods_Authentication = []\<rparr>"

definition optsAllSet :: ProofOptions where
  "optsAllSet =
     \<lparr>VerificationMethod = ''did:example:123#key2'', SignatureType = ''Ed25519Signature2018'',
      Created = Some 1262373804, Domain = ''issuer.example.com'', Challenge = ''sample-challenge'',
      proofPurpose = ''''\<rparr>"

section \<open>JSON values, proofs and documents\<close>

text \<open>
  Untyped JSON (\<open>interface{}\<close> after decoding): an object is an association list, an
  array a list. Byte slices are \<open>string\<close>s, as Go strings are.
\<close>

type_synonym bytes = string

datatype json =
    JNull
  | JBool bool
  | JNumber int
  | JString string
  | JArray "json list"
  | JObject "(string \<times> json) list"

text \<open>
  \<open>verifiable.Proof\<close> is a map from string keys to JSON values (the examples read and
  write \<open>proof["proofValue"]\<close>); the documents hold their proofs in the slice \<open>Proofs\<close>
  (the examples read \<open>vc.Proofs[1]\<close>).
\<close>

type_synonym Proof = "(string \<times> json) list"

record Issuer =
  iss_ID :: string
  iss_CustomFields :: "(string \<times> json) list"

record Credential =
  vc_Context :: "string list"
  vc_ID :: string
  vc_Types :: "string list"
  vc_Subject :: json
  vc_Issuer :: Issuer
  vc_Issued :: "Time option"
  vc_Expired :: "Time option"
  vc_Schemas :: "json list"
  vc_CustomFields :: "(string \<times> json) list"
  vc_Proofs :: "Proof list"

record Presentation =
  vp_Context :: "string list"
  vp_ID :: string
  vp_Type :: "string list"
  vp_credentials :: "Credential list"
  Holder :: string
  vp_Proofs :: "Proof list"

section \<open>The signer backed by the key manager\<close>

text \<open>
  The key manager is its \<open>Get\<close>, from a key id to a key handle or an error; the crypto
  service is its \<open>Sign\<close>. Key handles are opaque (\<open>interface{}\<close>): a type parameter.
\<close>

record 'h kmsSigner =
  keyHandle :: 'h
  crypto :: "bytes \<Rightarrow> 'h \<Rightarrow> error + bytes"

definition newKMSSigner ::
  "(string \<Rightarrow> error + 'h) \<Rightarrow> (bytes \<Rightarrow> 'h \<Rightarrow> error + bytes) \<Rightarrow> string \<Rightarrow> error + 'h kmsSigner" where
  "newKMSSigner keyManager c creator =
     (let idSplit = Split creator CHR ''#'' in
      if length idSplit \<noteq> creatorParts then Inl (WrongID idSplit)
      else (case keyManager (idSplit ! 1) of
              Inl err \<Rightarrow> Inl err
            | Inr keyHandler \<Rightarrow> Inr \<lparr>keyHandle = keyHandler, crypto = c\<rparr>))"

definition Sign :: "'h kmsSigner \<Rightarrow> bytes \<Rightarrow> error + bytes" where
  "Sign s data = (case crypto s data (keyHandle s) of Inl err \<Rightarrow> Inl err | Inr v \<Rightarrow> Inr v)"

section \<open>Linked-data proofs\<close>

text \<open>
  The two suites the command can build, each around its signer, and the context handed to
  \<open>AddLinkedDataProof\<close>.
\<close>

datatype 'h SignatureSuite =
    Ed25519Signature2018Suite "'h kmsSigner"
  | JSONWebSignature2020Suite "'h kmsSigner"

datatype SignatureRepresentation = SignatureProofValue | SignatureJWS

record 'h LinkedDataProofContext =
  ctx_VerificationMethod :: string
  ctx_SignatureRepresentation :: SignatureRepresentation
  ctx_SignatureType :: string
  ctx_Suite :: "'h SignatureSuite"
  ctx_Created :: "Time option"
  ctx_Domain :: string
  ctx_Challenge :: string
  ctx_Purpose :: string

section \<open>The command: signing presentations\<close>

text \<open>
  The command's dependencies, as far as generating a presentation uses them: the provider
  (\<open>o.ctx\<close>: key manager, crypto service, registry), the two stores, and the functions of
  package \<open>verifiable\<close> that the command calls. That package is outside the files at hand;
  its functions are taken as they come, \<open>vp.AddLinkedDataProof\<close> among them.
\<close>

record 'h Command =
  KMS :: "string \<Rightarrow> error + 'h"
  Crypto :: "bytes \<Rightarrow> 'h \<Rightarrow> error + bytes"
  VDRIRegistry_Resolve :: "string \<Rightarrow> error + did_Doc"
  didStore_GetDID :: "string \<Rightarrow> error + did_Doc"
  verifiableStore_GetCredential :: "string \<Rightarrow> error + Credential"
  NewCredential :: "bytes \<Rightarrow> bool \<Rightarrow> error + Credential"
  NewUnverifiedPresentation :: "bytes \<Rightarrow> error + Presentation"
  Credential_Presentation :: "Credential \<Rightarrow> error + Presentation"
  SetCredentials :: "Presentation \<Rightarrow> Credential list \<Rightarrow> error + Presentation"
  MarshalJSON :: "Presentation \<Rightarrow> error + bytes"
  AddLinkedDataProof :: "Presentation \<Rightarrow> 'h LinkedDataProofContext \<Rightarrow> error + Presentation"

text \<open>
  \<open>addLinkedDataProof\<close> works on the presentation behind the pointer \<open>vp\<close>. The model
  returns the pair of that presentation as the call leaves it and the returned value. The
  presentation is written only by \<open>vp.AddLinkedDataProof\<close>, the last step, which gives the
  presentation with the proof added or an error (and then, for the model, the presentation
  as it was).
\<close>

definition addLinkedDataProof ::
  "'h Command \<Rightarrow> Presentation \<Rightarrow> ProofOptions \<Rightarrow> Presentation \<times> (error + Presentation)" where
  "addLinkedDataProof o' vp opts =
     (case newKMSSigner (KMS o') (Crypto o') (VerificationMethod opts) of
        Inl err \<Rightarrow> (vp, Inl err)
      | Inr s \<Rightarrow>
          (case (if SignatureType opts = Ed25519Signature2018 then Inr (Ed25519Signature2018Suite s)
                 else if SignatureType opts = JSONWebSignature2020 then Inr (JSONWebSignature2020Suite s)
                 else Inl (SignatureTypeUnsupported (SignatureType opts))) of
             Inl err \<Rightarrow> (vp, Inl err)
           | Inr signatureSuite \<Rightarrow>
               (let signingCtx =
                      \<lparr>ctx_VerificationMethod = VerificationMethod opts,
                       ctx_SignatureRepresentation = SignatureJWS,
                       ctx_SignatureType = SignatureType opts,
                       ctx_Suite = signatureSuite,
                       ctx_Created = Created opts,
                       ctx_Domain = Domain opts,
                       ctx_Challenge = Challenge opts,
                       ctx_Purpose = proofPurpose opts\<rparr>
                in case AddLinkedDataProof o' vp signingCtx of
                     Inl err \<Rightarrow> (vp, Inl (FailedToAddLinkedDataProof err))
                   | Inr vp' \<Rightarrow> (vp', Inr vp'))))"

text \<open>
  \<open>createAndSignPresentation\<close>: without a presentation, one is made from the first
  credential (indexing an empty slice panics) and given all the credentials; then the holder
  is set, the proof added and the result marshalled.
\<close>

definition createAndSignPresentation ::
  "'h Command \<Rightarrow> Credential list \<Rightarrow> Presentation option \<Rightarrow> string \<Rightarrow> ProofOptions \<Rightarrow> error + bytes" where
  "createAndSignPresentation o' credentials vp holder opts =
     (case (case vp of
              Some p \<Rightarrow> Inr p
            | None \<Rightarrow>
                (case credentials of
                   [] \<Rightarrow> Inl IndexOutOfRange
                 | c # cs \<Rightarrow>
                     (case Credential_Presentation o' c of
                        Inl err \<Rightarrow> Inl err
                      | Inr p \<Rightarrow>
                          (case SetCredentials o' p credentials of
                             Inl err \<Rightarrow> Inl (FailedToSetCredentials err)
                           | Inr p' \<Rightarrow> Inr p')))) of
        Inl err \<Rightarrow> Inl err
      | Inr vp1 \<Rightarrow>
          (case snd (addLinkedDataProof o' (vp1\<lparr>Holder := holder\<rparr>) opts) of
             Inl err \<Rightarrow> Inl (FailedToSignVP err)
           | Inr vp2 \<Rightarrow> MarshalJSON o' vp2))"

definition createAndSignPresentationByID ::
  "'h Command \<Rightarrow> Credential \<Rightarrow> did_Doc \<Rightarrow> string \<Rightarrow> error + bytes" where
  "createAndSignPresentationByID o' vc didDoc signatureType =
     (case getDefaultVerificationMethod didDoc of
        Inl err \<Rightarrow> Inl err
      | Inr pk \<Rightarrow>
          (case Credential_Presentation o' vc of
             Inl err \<Rightarrow> Inl (FailedToCreateVPByID err)
           | Inr vp \<Rightarrow>
               (case snd (addLinkedDataProof o' vp
                            (emptyProofOptions\<lparr>VerificationMethod := pk, SignatureType := signatureType\<rparr>)) of
                  Inl err \<Rightarrow> Inl (FailedToSignVPByID err)
                | Inr vp' \<Rightarrow> MarshalJSON o' vp')))"

text \<open>
  The command errors: \<open>command.NewValidationError code err\<close>, with the codes used on the
  two paths that generate a presentation.
\<close>

datatype Code =
    InvalidRequestErrorCode
  | GeneratePresentationErrorCode
  | GeneratePresentationByIDErrorCode

datatype command_Error = ValidationError Code error

text \<open>
  \<open>generatePresentation\<close> and \<open>generatePresentationByID\<close> write the response
  \<open>Presentation{VerifiablePresentation: vp}\<close>; the model returns the bytes written.
\<close>

definition generatePresentation ::
  "'h Command \<Rightarrow> Credential list \<Rightarrow> Presentation option \<Rightarrow> string \<Rightarrow> ProofOptions \<Rightarrow> command_Error + bytes" where
  "generatePresentation o' vcs p holder opts =
     (case createAndSignPresentation o' vcs p holder opts of
        Inl err \<Rightarrow> Inl (ValidationError GeneratePresentationByIDErrorCode (PrepareVPFailed err))
      | Inr vp \<Rightarrow> Inr vp)"

definition generatePresentationByID ::
  "'h Command \<Rightarrow> Credential \<Rightarrow> did_Doc \<Rightarrow> string \<Rightarrow> command_Error + bytes" where
  "generatePresentationByID o' vc didDoc signatureType =
     (case createAndSignPresentationByID o' vc didDoc signatureType of
        Inl err \<Rightarrow> Inl (ValidationError GeneratePresentationByIDErrorCode (PrepareVPByIDFailed err))
      | Inr vp \<Rightarrow> Inr vp)"

text \<open>
  What the command relies on when it sets the holder before signing: that
  \<open>vp.AddLinkedDataProof\<close> leaves the holder of the presentation as it is.
\<close>

definition keepsHolder :: "'h Command \<Rightarrow> bool" where
  "keepsHolder o' =
     (\<forall>vp ctx vp'. AddLinkedDataProof o' vp ctx = Inr vp' \<longrightarrow> Holder vp' = Holder vp)"

section \<open>The command: the two requests that generate a presentation\<close>

text \<open>
  The request types are declared outside the files at hand; the records hold what the
  handlers read from a decoded request. \<open>request.SignatureType\<close> is taken as a value of
  the request, beside \<open>request.ProofOptions\<close>. The handlers are modelled from the decoded
  request on.
\<close>

record PresentationRequest =
  req_VerifiableCredentials :: "bytes list"
  req_Presentation :: bytes
  req_DID :: string
  req_ProofOptions :: "ProofOptions option"
  req_SignatureType :: string
  req_SkipVerify :: bool

record PresentationRequestByID =
  reqid_ID :: string
  reqid_DID :: string
  reqid_SignatureType :: string

text \<open>
  The loop of \<open>parsePresentationRequest\<close> over the raw credentials. \<open>NewCredential\<close>
  is called with the proof check disabled when \<open>SkipVerify\<close> is set, and with the
  registry's public-key fetcher otherwise.
\<close>

fun parseCredentials :: "'h Command \<Rightarrow> bool \<Rightarrow> bytes list \<Rightarrow> error + Credential list" where
  "parseCredentials o' skipVerify [] = Inr []"
| "parseCredentials o' skipVerify (vcRaw # rest) =
     (case NewCredential o' vcRaw skipVerify of
        Inl e \<Rightarrow> Inl (ParseCredentialFailed e)
      | Inr vc \<Rightarrow>
          (case parseCredentials o' skipVerify rest of
             Inl e \<Rightarrow> Inl e
           | Inr vcs \<Rightarrow> Inr (vc # vcs)))"

definition parsePresentationRequest ::
  "'h Command \<Rightarrow> PresentationRequest \<Rightarrow> did_Doc
     \<Rightarrow> error + (Credential list \<times> Presentation option \<times> ProofOptions)" where
  "parsePresentationRequest o' request didDoc =
     (if req_VerifiableCredentials request = [] \<and> req_Presentation request = []
      then Inl NoCredentialsOrPresentation
      else if req_SignatureType request = '''' then Inl SignatureTypeEmpty
      else
        (case (if req_VerifiableCredentials request \<noteq> []
               then (case parseCredentials o' (req_SkipVerify request) (req_VerifiableCredentials request) of
                       Inl e \<Rightarrow> Inl e
                     | Inr vcs \<Rightarrow> Inr (vcs, None))
               else (case NewUnverifiedPresentation o' (req_Presentation request) of
                       Inl err \<Rightarrow> Inl (ParsePresentationFailed err)
                     | Inr presentation \<Rightarrow> Inr ([], Some presentation))) of
           Inl err \<Rightarrow> Inl err
         | Inr (vcs, presentation) \<Rightarrow>
             (case snd (prepareOpts (req_ProofOptions request) didDoc) of
                Inl err \<Rightarrow> Inl (FailedToPrepareProofOptions err)
              | Inr opts \<Rightarrow> Inr (vcs, presentation, opts))))"

text \<open>
  \<open>GeneratePresentation\<close>: the identity document comes from the registry or, failing
  that, from the local store; its id is the holder passed on.
\<close>

definition GeneratePresentation :: "'h Command \<Rightarrow> PresentationRequest \<Rightarrow> command_Error + bytes" where
  "GeneratePresentation o' request =
     (case (case VDRIRegistry_Resolve o' (req_DID request) of
              Inr didDoc \<Rightarrow> Inr didDoc
            | Inl _ \<Rightarrow>
                (case didStore_GetDID o' (req_DID request) of
                   Inl err \<Rightarrow> Inl (ValidationError GeneratePresentationErrorCode (FailedToGetDIDDoc err))
                 | Inr didDoc \<Rightarrow> Inr didDoc)) of
        Inl cerr \<Rightarrow> Inl cerr
      | Inr didDoc \<Rightarrow>
          (case parsePresentationRequest o' request didDoc of
             Inl err \<Rightarrow> Inl (ValidationError GeneratePresentationErrorCode (ParsePresentationRequestFailed err))
           | Inr (credentials, presentation, opts) \<Rightarrow>
               generatePresentation o' credentials presentation (doc_ID didDoc) opts))"

definition GeneratePresentationByID :: "'h Command \<Rightarrow> PresentationRequestByID \<Rightarrow> command_Error + bytes" where
  "GeneratePresentationByID o' request =
     (if reqid_ID request = '''' then Inl (ValidationError InvalidRequestErrorCode EmptyCredentialID)
      else if reqid_DID request = '''' then Inl (ValidationError InvalidRequestErrorCode EmptyDID)
      else
        (case verifiableStore_GetCredential o' (reqid_ID request) of
           Inl err \<Rightarrow> Inl (ValidationError GeneratePresentationByIDErrorCode (GetVCByIDFailed err))
         | Inr vc \<Rightarrow>
             (case didStore_GetDID o' (reqid_DID request) of
                Inl err \<Rightarrow> Inl (ValidationError GeneratePresentationErrorCode (FailedToGetDIDDocFromStore err))
              | Inr doc \<Rightarrow> generatePresentationByID o' vc doc (reqid_SignatureType request))))"

subsection \<open>An example credential and presentation\<close>

text \<open>
  The credential of the examples (\<open>vcJSON\<close>). The instants are
  2009-01-01T19:23:24Z and 2020-01-01T19:23:24Z in seconds since the epoch.
\<close>

definition exampleCredential :: Credential where
  "exampleCredential =
     \<lparr>vc_Context = [''https://www.w3.org/2018/credentials/v1'',
                    ''https://www.w3.org/2018/credentials/examples/v1''],
      vc_ID = ''http://example.edu/credentials/1872'',
      vc_Types = [''VerifiableCredential'', ''UniversityDegreeCredential''],
      vc_Subject =
        JObject [(''degree'', JObject [(''type'', JString ''BachelorDegree''),
                                       (''university'', JString ''MIT'')]),
                 (''id'', JString ''did:example:ebfeb1f712ebc6f1c276e12ec21''),
                 (''name'', JString ''Jayden Doe''),
                 (''spouse'', JString ''did:example:c276e12ec21ebfeb1f712ebc6f1'')],
      vc_Issuer = \<lparr>iss_ID = ''did:example:76e12ec712ebc6f1c221ebfeb1f'',
                   iss_CustomFields = [(''name'', JString ''Example University'')]\<rparr>,
      vc_Issued = Some 1230837804,
      vc_Expired = Some 1577906604,
      vc_Schemas = [],
      vc_CustomFields = [(''referenceNumber'', JNumber 83294849)],
      vc_Proofs = []\<rparr>"

definition examplePresentation :: Presentation where
  "examplePresentation =
     \<lparr>vp_Context = [''https://www.w3.org/2018/credentials/v1''],
      vp_ID = ''urn:uuid:3978344f-8596-4c3a-a978-8fcaba3903c5'',
      vp_Type = [''VerifiablePresentation''],
      vp_credentials = [exampleCredential],
      Holder = ''did:example:ebfeb1f712ebc6f1c276e12ec21'',
      vp_Proofs = []\<rparr>"

section \<open>The proof engine\<close>

text \<open>
  What the proof engine takes from outside: the canonicalizer of a document (which can fail),
  the clock, the text form of an instant, and the two encodings of a signature (compact JWS,
  and the suite's own encoding for \<open>proofValue\<close>).
\<close>

record 'd ProofEngine =
  Canonicalize :: "'d \<Rightarrow> error + bytes"
  Now :: Time
  FormatTime :: "Time \<Rightarrow> string"
  EncodeJWS :: "bytes \<Rightarrow> string"
  EncodeProofValue :: "bytes \<Rightarrow> string"

text \<open>
  Modelled from the spec: a suite of the registry (4.2) signs through the signer it was
  made with (\<open>suite.WithSigner\<close>).
\<close>

definition suiteSigner :: "'h SignatureSuite \<Rightarrow> 'h kmsSigner" where
  "suiteSigner suite =
     (case suite of Ed25519Signature2018Suite s \<Rightarrow> s | JSONWebSignature2020Suite s \<Rightarrow> s)"

text \<open>
  Modelled from the spec: the Proof record that \<open>addProof\<close> builds (4.4 and the data model).
  It has the keys \<open>type\<close>, \<open>created\<close> (the context's instant, or now if unset),
  \<open>proofPurpose\<close> (\<open>assertionMethod\<close> unless the caller gives one),
  \<open>verificationMethod\<close>, and exactly one of \<open>jws\<close> (for the representation
  \<open>SignatureJWS\<close>) or \<open>proofValue\<close> (for every other); domain and challenge are
  carried when the caller gave them.
\<close>

definition buildProof :: "'d ProofEngine \<Rightarrow> 'h LinkedDataProofContext \<Rightarrow> bytes \<Rightarrow> Proof" where
  "buildProof eng ctx signature =
     [(''created'', JString (FormatTime eng (case ctx_Created ctx of None \<Rightarrow> Now eng | Some t \<Rightarrow> t)))]
     @ (if ctx_Challenge ctx = '''' then [] else [(''challenge'', JString (ctx_Challenge ctx))])
     @ (if ctx_Domain ctx = '''' then [] else [(''domain'', JString (ctx_Domain ctx))])
     @ (case ctx_SignatureRepresentation ctx of
          SignatureJWS \<Rightarrow> [(''jws'', JString (EncodeJWS eng signature))]
        | SignatureProofValue \<Rightarrow> [])
     @ [(''proofPurpose'',
          JString (if ctx_Purpose ctx = '''' then ''assertionMethod'' else ctx_Purpose ctx))]
     @ (case ctx_SignatureRepresentation ctx of
          SignatureJWS \<Rightarrow> []
        | SignatureProofValue \<Rightarrow> [(''proofValue'', JString (EncodeProofValue eng signature))])
     @ [(''type'', JString (ctx_SignatureType ctx)),
        (''verificationMethod'', JString (ctx_VerificationMethod ctx))]"

text \<open>
  Modelled from the spec: \<open>addProof\<close> of the proof engine (4.4), on the proof collection of
  a document. The document is canonicalized and the bytes are signed by the suite's signer;
  a failure of either leaves the collection as it was ("the proof is not attached").
  Otherwise the new Proof is appended after the proofs already there.
\<close>

definition addProof ::
  "'d ProofEngine \<Rightarrow> 'h LinkedDataProofContext \<Rightarrow> 'd \<Rightarrow> Proof list \<Rightarrow> error + Proof list" where
  "addProof eng ctx doc proofs =
     (case Canonicalize eng doc of
        Inl err \<Rightarrow> Inl err
      | Inr canonical \<Rightarrow>
          (case Sign (suiteSigner (ctx_Suite ctx)) canonical of
             Inl err \<Rightarrow> Inl err
           | Inr signature \<Rightarrow> Inr (proofs @ [buildProof eng ctx signature])))"

text \<open>
  Modelled from the spec: \<open>AddLinkedDataProof\<close> on a presentation and on a credential. Only
  the proof collection of the document changes.
\<close>

definition Presentation_AddLinkedDataProof ::
  "Presentation ProofEngine \<Rightarrow> Presentation \<Rightarrow> 'h LinkedDataProofContext \<Rightarrow> error + Presentation" where
  "Presentation_AddLinkedDataProof eng vp ctx =
     (case addProof eng ctx vp (vp_Proofs vp) of
        Inl err \<Rightarrow> Inl err
      | Inr proofs \<Rightarrow> Inr (vp\<lparr>vp_Proofs := proofs\<rparr>))"

definition Credential_AddLinkedDataProof ::
  "Credential ProofEngine \<Rightarrow> Credential \<Rightarrow> 'h LinkedDataProofContext \<Rightarrow> error + Credential" where
  "Credential_AddLinkedDataProof eng vc ctx =
     (case addProof eng ctx vc (vc_Proofs vc) of
        Inl err \<Rightarrow> Inl err
      | Inr proofs \<Rightarrow> Inr (vc\<lparr>vc_Proofs := proofs\<rparr>))"

section \<open>The proof field and the verification of proofs\<close>

text \<open>
  Modelled from the spec: the \<open>proof\<close> field of a document on the wire, "either one such
  object or a JSON array of them" (the examples print an object for one proof and an array
  for two); a document without proofs has no such field.
\<close>

datatype ProofField = NoProof | SingleProof Proof | ProofList "Proof list"

definition proofField :: "Proof list \<Rightarrow> ProofField" where
  "proofField proofs =
     (case proofs of
        [] \<Rightarrow> NoProof
      | [p] \<Rightarrow> SingleProof p
      | p # q # rest \<Rightarrow> ProofList (p # q # rest))"

text \<open>
  What verification takes from outside: the canonicalizer, the registered suites (by name,
  each with its \<open>verify\<close> of public key, canonical data and signature bytes), the
  public-key fetcher and the decoders of the two signature encodings.
\<close>

record ('d, 'k) ProofChecker =
  chk_Canonicalize :: "'d \<Rightarrow> error + bytes"
  chk_Suites :: "string \<Rightarrow> ('k \<Rightarrow> bytes \<Rightarrow> bytes \<Rightarrow> bool) option"
  chk_PublicKeyFetcher :: "string \<Rightarrow> string \<Rightarrow> error + 'k"
  chk_DecodeJWS :: "string \<Rightarrow> bytes option"
  chk_DecodeProofValue :: "string \<Rightarrow> bytes option"

text \<open>
  Modelled from the spec: the signature bytes of a proof, from its \<open>jws\<close> or else from its
  \<open>proofValue\<close> (the representation mapping of 4.4).
\<close>

definition proofSignature :: "('d, 'k) ProofChecker \<Rightarrow> Proof \<Rightarrow> bytes option" where
  "proofSignature chk p =
     (case map_of p ''jws'' of
        Some (JString s) \<Rightarrow> chk_DecodeJWS chk s
      | _ \<Rightarrow>
          (case map_of p ''proofValue'' of
             Some (JString s) \<Rightarrow> chk_DecodeProofValue chk s
           | _ \<Rightarrow> None))"

text \<open>
  Modelled from the spec: \<open>verifyProof\<close> for one proof of a document (4.4): take the suite
  of the proof's type (an unknown name is an error), fetch the public key for the proof's own
  verification method, re-derive the canonical bytes and check the suite's \<open>verify\<close>. The
  fetcher is asked with the two parts of \<open>didID#keyID\<close>, the second with its \<open>#\<close>, as
  the fetcher of the multi-proof example is (it answers to \<open>#key1\<close> and \<open>#key2\<close>). A
  mismatch or a fetcher failure is a \<open>VerificationError\<close> naming the verification method.
\<close>

definition verifyProof :: "('d, 'k) ProofChecker \<Rightarrow> 'd \<Rightarrow> Proof \<Rightarrow> error + unit" where
  "verifyProof chk doc p =
     (case (map_of p ''type'', map_of p ''verificationMethod'') of
        (Some (JString suiteName), Some (JString vm)) \<Rightarrow>
          (case chk_Suites chk suiteName of
             None \<Rightarrow> Inl (UnsupportedSuite suiteName)
           | Some verify \<Rightarrow>
               (case proofSignature chk p of
                  None \<Rightarrow> Inl InvalidInput
                | Some signature \<Rightarrow>
                    (case Split vm CHR ''#'' of
                       [didID, keyID] \<Rightarrow>
                         (case chk_PublicKeyFetcher chk didID (CHR ''#'' # keyID) of
                            Inl err \<Rightarrow> Inl (VerificationError vm)
                          | Inr publicKey \<Rightarrow>
                              (case chk_Canonicalize chk doc of
                                 Inl err \<Rightarrow> Inl err
                               | Inr canonical \<Rightarrow>
                                   if verify publicKey canonical signature then Inr ()
                                   else Inl (VerificationError vm)))
                     | _ \<Rightarrow> Inl (VerificationError vm))))
      | _ \<Rightarrow> Inl InvalidInput)"

text \<open>
  Modelled from the spec: the verification of a document checks each proof present, in
  order, and stops at the first that fails, reporting it: "all proofs must independently
  verify", with no "any one suffices".
\<close>

fun verifyProofs :: "('d, 'k) ProofChecker \<Rightarrow> 'd \<Rightarrow> Proof list \<Rightarrow> error + unit" where
  "verifyProofs chk doc [] = Inr ()"
| "verifyProofs chk doc (p # ps) =
     (case verifyProof chk doc p of
        Inl err \<Rightarrow> Inl err
      | Inr ok \<Rightarrow> verifyProofs chk doc ps)"

text \<open>
  Modelled from the spec: the verification of a credential and of a presentation is that of
  the proofs each carries.
\<close>

definition Credential_verify :: "(Credential, 'k) ProofChecker \<Rightarrow> Credential \<Rightarrow> error + unit" where
  "Credential_verify chk vc = verifyProofs chk vc (vc_Proofs vc)"

definition Presentation_verify :: "(Presentation, 'k) ProofChecker \<Rightarrow> Presentation \<Rightarrow> error + unit" where
  "Presentation_verify chk vp = verifyProofs chk vp (vp_Proofs vp)"

subsection \<open>The multi-proof example\<close>

text \<open>
  The example credential with its first proof (the Ed25519 proof the example prints), the
  context of the second (\<open>JsonWebSignature2020\<close> with \<open>#key2\<close>), and stand-ins for
  the engine and the checker: signing tags the data with the key handle, and a key verifies
  the signatures of the handle that bears its name.
\<close>

definition exampleProof1 :: Proof where
  "exampleProof1 =
     [(''created'', JString ''2010-01-01T19:23:24Z''),
      (''jws'', JString ''header..key1:vc:http://example.edu/credentials/1872''),
      (''proofPurpose'', JString ''assertionMethod''),
      (''type'', JString ''Ed25519Signature2018''),
      (''verificationMethod'', JString ''did:example:123456#key1'')]"

definition exampleCredentialEngine :: "Credential ProofEngine" where
  "exampleCredentialEngine =
     \<lparr>Canonicalize = (\<lambda>vc. Inr (''vc:'' @ vc_ID vc)),
      Now = 1262373804,
      FormatTime = (\<lambda>t. if t = 1262373804 then ''2010-01-01T19:23:24Z'' else ''1970-01-01T00:00:00Z''),
      EncodeJWS = (\<lambda>signature. ''header..'' @ signature),
      EncodeProofValue = (\<lambda>signature. signature)\<rparr>"

definition exampleContext2 :: "string LinkedDataProofContext" where
  "exampleContext2 =
     \<lparr>ctx_VerificationMethod = ''did:example:123456#key2'',
      ctx_SignatureRepresentation = SignatureJWS,
      ctx_SignatureType = ''JsonWebSignature2020'',
      ctx_Suite = JSONWebSignature2020Suite
                    \<lparr>keyHandle = ''key2'', crypto = (\<lambda>data kh. Inr (kh @ '':'' @ data))\<rparr>,
      ctx_Created = Some 1262373804,
      ctx_Domain = '''', ctx_Challenge = '''', ctx_Purpose = ''''\<rparr>"

definition exampleChecker :: "(Credential, string) ProofChecker" where
  "exampleChecker =
     \<lparr>chk_Canonicalize = (\<lambda>vc. Inr (''vc:'' @ vc_ID vc)),
      chk_Suites =
        (\<lambda>name. if name = ''Ed25519Signature2018'' \<or> name = ''JsonWebSignature2020''
                 then Some (\<lambda>publicKey canonical signature. signature = publicKey @ '':'' @ canonical)
                 else None),
      chk_PublicKeyFetcher =
        (\<lambda>issuerID keyID. if keyID = ''#key1'' then Inr ''key1''
                           else if keyID = ''#key2'' then Inr ''key2''
                           else Inl (External ''unsupported keyID'')),
      chk_DecodeJWS = (\<lambda>s. if take 8 s = ''header..'' then Some (drop 8 s) else None),
      chk_DecodeProofValue = (\<lambda>s. Some s)\<rparr>"

definition exampleProof2 :: Proof where
  "exampleProof2 =
     [(''created'', JString ''2010-01-01T19:23:24Z''),
      (''jws'', JString ''header..key2:vc:http://example.edu/credentials/1872''),
      (''proofPurpose'', JString ''assertionMethod''),
      (''type'', JString ''JsonWebSignature2020''),
      (''verificationMethod'', JString ''did:example:123456#key2'')]"

definition exampleCredential1 :: Credential where
  "exampleCredential1 = exampleCredential\<lparr>vc_Proofs := [exampleProof1]\<rparr>"

definition exampleCredential2 :: Credential where
  "exampleCredential2 = exampleCredential\<lparr>vc_Proofs := [exampleProof1, exampleProof2]\<rparr>"

definition examplePresentation1 :: Presentation where
  "examplePresentation1 = examplePresentation\<lparr>vp_Proofs := [exampleProof1]\<rparr>"

section \<open>Selective disclosure\<close>

text \<open>
  The standard base64 encoding (RFC 4648, with padding) of a byte string, which is how the
  nonce and the proof value stand in a derived proof (the example prints
  \<open>c29tZSBub25jZQ==\<close> for the nonce \<open>some nonce\<close>).
\<close>

definition base64Alphabet :: string where
  "base64Alphabet = ''ABCDEFGHIJKLMNOPQRSTUVWXYZabcdefghijklmnopqrstuvwxyz0123456789+/''"

definition base64Char :: "nat \<Rightarrow> char" where
  "base64Char n = base64Alphabet ! (n mod 64)"

fun base64 :: "bytes \<Rightarrow> string" where
  "base64 [] = []"
| "base64 [a] =
     (let x = (of_char a :: nat)
      in [base64Char (x div 4), base64Char ((x mod 4) * 16), CHR ''='', CHR ''=''])"
| "base64 [a, b] =
     (let x = (of_char a :: nat); y = (of_char b :: nat)
      in [base64Char (x div 4), base64Char ((x mod 4) * 16 + y div 16),
          base64Char ((y mod 16) * 4), CHR ''=''])"
| "base64 (a # b # c # rest) =
     (let x = (of_char a :: nat); y = (of_char b :: nat); z = (of_char c :: nat)
      in [base64Char (x div 4), base64Char ((x mod 4) * 16 + y div 16),
          base64Char ((y mod 16) * 4 + z div 64), base64Char (z mod 64)] @ base64 rest)"

text \<open>
  Modelled from the spec: whether a node of the reveal document carries \<open>@explicit: true\<close>,
  and the two fields that stay at every node.
\<close>

definition isExplicit :: "(string \<times> json) list \<Rightarrow> bool" where
  "isExplicit node = (map_of node ''@explicit'' = Some (JBool True))"

definition mandatoryField :: "string \<Rightarrow> bool" where
  "mandatoryField k = (k = ''id'' \<or> k = ''type'')"

text \<open>
  Modelled from the spec: the walk over the reveal document (4.6, step 2), on the JSON form
  of a node. At a node of the reveal document that carries \<open>@explicit: true\<close>, only the
  fields it enumerates are kept, and every other field is hidden, except \<open>id\<close> and
  \<open>type\<close>, which stay ("mandatory id/type per statement semantics"). At a node without
  \<open>@explicit\<close> every field is kept. A kept field that the reveal document describes by a
  node of its own is walked with that node; any other kept value is kept whole.
\<close>

fun reveal :: "json \<Rightarrow> json \<Rightarrow> json"
  and revealFields :: "bool \<Rightarrow> (string \<times> json) list \<Rightarrow> (string \<times> json) list \<Rightarrow> (string \<times> json) list" where
  "reveal r (JObject members) =
     (case r of
        JObject node \<Rightarrow> JObject (revealFields (isExplicit node) node members)
      | _ \<Rightarrow> JObject members)"
| "reveal r JNull = JNull"
| "reveal r (JBool b) = JBool b"
| "reveal r (JNumber n) = JNumber n"
| "reveal r (JString s) = JString s"
| "reveal r (JArray vs) = JArray vs"
| "revealFields explicit node [] = []"
| "revealFields explicit node ((k, v) # members) =
     (case map_of node k of
        Some r \<Rightarrow> (k, reveal r v) # revealFields explicit node members
      | None \<Rightarrow>
          if explicit \<and> \<not> mandatoryField k then revealFields explicit node members
          else (k, v) # revealFields explicit node members)"

text \<open>
  Modelled from the spec: the reduced document (4.6, steps 2 and 4) of a credential. The top
  level of the reveal document decides the expiration date, the schemas, the subject and the
  extension members; the subject is walked with the reveal document's \<open>credentialSubject\<close>
  node. Context, id, type, issuer and issuance date are always retained. A reveal document
  that is not a JSON object is malformed.
\<close>

definition revealCredential :: "json \<Rightarrow> Credential \<Rightarrow> error + Credential" where
  "revealCredential revealDoc vc =
     (case revealDoc of
        JObject node \<Rightarrow>
          (let hidden = (\<lambda>k. isExplicit node \<and> map_of node k = None)
           in Inr (vc\<lparr>vc_Subject :=
                        (if hidden ''credentialSubject'' then JNull
                         else (case map_of node ''credentialSubject'' of
                                 Some r \<Rightarrow> reveal r (vc_Subject vc)
                               | None \<Rightarrow> vc_Subject vc)),
                      vc_Expired := (if hidden ''expirationDate'' then None else vc_Expired vc),
                      vc_Schemas := (if hidden ''credentialSchema'' then [] else vc_Schemas vc),
                      vc_CustomFields := revealFields (isExplicit node) node (vc_CustomFields vc),
                      vc_Proofs := []\<rparr>))
      | _ \<Rightarrow> Inl SelectiveDisclosureError)"

text \<open>
  What the derivation takes from outside: the canonicalizer that gives the ordered statement
  list of a document, the public-key fetcher, the decoder of a stored proof value, and the
  BBS+ primitive that derives a proof from the signature, the public key, the full statement
  list, the revealed indices and the nonce.
\<close>

record 'k BBSEngine =
  bbs_Statements :: "Credential \<Rightarrow> error + bytes list"
  bbs_PublicKeyFetcher :: "string \<Rightarrow> string \<Rightarrow> error + 'k"
  bbs_DecodeProofValue :: "string \<Rightarrow> bytes option"
  bbs_DeriveProof :: "bytes \<Rightarrow> 'k \<Rightarrow> bytes list \<Rightarrow> nat list \<Rightarrow> bytes \<Rightarrow> error + bytes"

text \<open>
  Modelled from the spec: the proofs the derivation starts from are those of the type
  \<open>BbsBlsSignature2020\<close> (4.6, input).
\<close>

definition isBBSProof :: "Proof \<Rightarrow> bool" where
  "isBBSProof p = (map_of p ''type'' = Some (JString ''BbsBlsSignature2020''))"

text \<open>
  Modelled from the spec: the partition of the statements (4.6, step 3): the indices, in the
  full statement list, of the statements that are statements of the reduced document.
\<close>

definition revealedIndices :: "bytes list \<Rightarrow> bytes list \<Rightarrow> nat list" where
  "revealedIndices statements revealed =
     filter (\<lambda>i. statements ! i \<in> set revealed) [0 ..< length statements]"

text \<open>
  Writing a member of a JSON object, as an assignment to a Go map does: the value of a key that
  is there is replaced, a new key is added.
\<close>

fun setField :: "string \<Rightarrow> json \<Rightarrow> (string \<times> json) list \<Rightarrow> (string \<times> json) list" where
  "setField k v [] = [(k, v)]"
| "setField k v ((k', v') # members) =
     (if k' = k then (k, v) # members else (k', v') # setField k v members)"

text \<open>
  Modelled from the spec: the derived proof for one BBS+ proof (4.6, steps 4 and 5): the
  proof derived by the primitive is stored, base64-encoded, under \<open>proofValue\<close>, the type
  becomes \<open>BbsBlsSignatureProof2020\<close>, and the nonce is added, base64-encoded, under
  \<open>nonce\<close>; the other members of the proof stay.
\<close>

definition deriveProof ::
  "'k BBSEngine \<Rightarrow> bytes list \<Rightarrow> nat list \<Rightarrow> bytes \<Rightarrow> Proof \<Rightarrow> error + Proof" where
  "deriveProof bbs statements indices nonce p =
     (case (map_of p ''proofValue'', map_of p ''verificationMethod'') of
        (Some (JString value), Some (JString vm)) \<Rightarrow>
          (case bbs_DecodeProofValue bbs value of
             None \<Rightarrow> Inl SelectiveDisclosureError
           | Some signature \<Rightarrow>
               (case Split vm CHR ''#'' of
                  [didID, keyID] \<Rightarrow>
                    (case bbs_PublicKeyFetcher bbs didID (CHR ''#'' # keyID) of
                       Inl err \<Rightarrow> Inl err
                     | Inr publicKey \<Rightarrow>
                         (case bbs_DeriveProof bbs signature publicKey statements indices nonce of
                            Inl err \<Rightarrow> Inl SelectiveDisclosureError
                          | Inr derived \<Rightarrow>
                              Inr (setField ''nonce'' (JString (base64 nonce))
                                    (setField ''proofValue'' (JString (base64 derived))
                                      (setField ''type'' (JString ''BbsBlsSignatureProof2020'') p)))))
                | _ \<Rightarrow> Inl SelectiveDisclosureError))
      | _ \<Rightarrow> Inl SelectiveDisclosureError)"

text \<open>
  Modelled from the spec: the derivation for each BBS+ proof in turn; the first failure is the
  result.
\<close>

fun deriveProofs ::
  "'k BBSEngine \<Rightarrow> bytes list \<Rightarrow> nat list \<Rightarrow> bytes \<Rightarrow> Proof list \<Rightarrow> error + Proof list" where
  "deriveProofs bbs statements indices nonce [] = Inr []"
| "deriveProofs bbs statements indices nonce (p # ps) =
     (case deriveProof bbs statements indices nonce p of
        Inl err \<Rightarrow> Inl err
      | Inr p' \<Rightarrow>
          (case deriveProofs bbs statements indices nonce ps of
             Inl err \<Rightarrow> Inl err
           | Inr ps' \<Rightarrow> Inr (p' # ps')))"

text \<open>
  Modelled from the spec: \<open>GenerateBBSSelectiveDisclosure\<close> (4.6). The input carries at
  least one BBS+ proof; the output is a new document, the reduced one, whose proofs are the
  proofs derived from the BBS+ proofs of the input ("only BBS+ related proof left").
\<close>

definition GenerateBBSSelectiveDisclosure ::
  "'k BBSEngine \<Rightarrow> Credential \<Rightarrow> json \<Rightarrow> bytes \<Rightarrow> error + Credential" where
  "GenerateBBSSelectiveDisclosure bbs vc revealDoc nonce =
     (if filter isBBSProof (vc_Proofs vc) = [] then Inl SelectiveDisclosureError
      else
        (case bbs_Statements bbs vc of
           Inl err \<Rightarrow> Inl err
         | Inr statements \<Rightarrow>
             (case revealCredential revealDoc vc of
                Inl err \<Rightarrow> Inl err
              | Inr reduced \<Rightarrow>
                  (case bbs_Statements bbs reduced of
                     Inl err \<Rightarrow> Inl err
                   | Inr revealed \<Rightarrow>
                       (case deriveProofs bbs statements (revealedIndices statements revealed) nonce
                               (filter isBBSProof (vc_Proofs vc)) of
                          Inl err \<Rightarrow> Inl err
                        | Inr proofs \<Rightarrow> Inr (reduced\<lparr>vc_Proofs := proofs\<rparr>))))))"

subsection \<open>The selective-disclosure example\<close>

definition bbsExampleProof :: Proof where
  "bbsExampleProof =
     [(''created'', JString ''2010-01-01T19:23:24Z''),
      (''proofPurpose'', JString ''assertionMethod''),
      (''proofValue'', JString ''ZHVtbXkgc2lnbmF0dXJlIHZhbHVl''),
      (''type'', JString ''BbsBlsSignature2020''),
      (''verificationMethod'', JString ''did:example:123456#key1'')]"

definition residentCard :: Credential where
  "residentCard =
     \<lparr>vc_Context = [''https://www.w3.org/2018/credentials/v1'',
                    ''https://w3id.org/citizenship/v1'',
                    ''https://w3id.org/security/bbs/v1''],
      vc_ID = ''https://issuer.oidp.uscis.gov/credentials/83627465'',
      vc_Types = [''VerifiableCredential'', ''PermanentResidentCard''],
      vc_Subject =
        JObject [(''id'', JString ''did:example:b34ca6cd37bbf23''),
                 (''type'', JArray [JString ''PermanentResident'', JString ''Person'']),
                 (''givenName'', JString ''JOHN''),
                 (''familyName'', JString ''SMITH''),
                 (''gender'', JString ''Male''),
                 (''image'', JString ''data:image/png;base64,iVBORw0KGgokJggg==''),
                 (''residentSince'', JString ''2015-01-01''),
                 (''lprCategory'', JString ''C09''),
                 (''lprNumber'', JString ''999-999-999''),
                 (''commuterClassification'', JString ''C1''),
                 (''birthCountry'', JString ''Bahamas''),
                 (''birthDate'', JString ''1958-07-17'')],
      vc_Issuer = \<lparr>iss_ID = ''did:example:b34ca6cd37bbf23'', iss_CustomFields = []\<rparr>,
      vc_Issued = Some 1575375592,
      vc_Expired = Some 1890994792,
      vc_Schemas = [],
      vc_CustomFields =
        [(''identifier'', JString ''83627465''),
         (''name'', JString ''Permanent Resident Card''),
         (''description'', JString ''Government of Example Permanent Resident Card.'')],
      vc_Proofs =
        [[(''created'', JString ''2010-01-01T19:23:24Z''),
          (''jws'', JString ''eyJhbGciOiJFZERTQSIsImI2NCI6ZmFsc2UsImNyaXQiOlsiYjY0Il19..HsBapUAZDdaZZy6hrn951768kJaRmNAwTWvVnTDM-Bp5k08eEnnxrii5n47AeWVLDJJo7P0dEPafyC_gMjFPAA''),
          (''proofPurpose'', JString ''assertionMethod''),
          (''type'', JString ''Ed25519Signature2018''),
          (''verificationMethod'', JString ''did:example:123456#key1'')],
         bbsExampleProof]\<rparr>"

definition subjectRevealNode :: "(string \<times> json) list" where
  "subjectRevealNode =
     [(''@explicit'', JBool True),
      (''type'', JArray [JString ''PermanentResident'', JString ''Person'']),
      (''givenName'', JObject []),
      (''familyName'', JObject []),
      (''gender'', JObject [])]"

definition revealDocNode :: "(string \<times> json) list" where
  "revealDocNode =
     [(''@context'', JArray [JString ''https://www.w3.org/2018/credentials/v1'',
                             JString ''https://w3id.org/citizenship/v1'',
                             JString ''https://w3id.org/security/bbs/v1'']),
      (''type'', JArray [JString ''VerifiableCredential'', JString ''PermanentResidentCard'']),
      (''@explicit'', JBool True),
      (''identifier'', JObject []),
      (''issuer'', JObject []),
      (''issuanceDate'', JObject []),
      (''credentialSubject'', JObject subjectRevealNode)]"

text \<open>
  Stand-ins for the collaborators: one statement per subject field and extension field, a
  fetcher that knows \<open>#key1\<close>, a decoder that takes the stored value as it is, and a
  primitive that returns the constant the example substitutes for the derived proof.
\<close>

definition exampleBBS :: "string BBSEngine" where
  "exampleBBS =
     \<lparr>bbs_Statements =
        (\<lambda>vc. Inr (map fst (vc_CustomFields vc)
                    @ (case vc_Subject vc of JObject members \<Rightarrow> map fst members | _ \<Rightarrow> []))),
      bbs_PublicKeyFetcher =
        (\<lambda>issuerID keyID. if keyID = ''#key1'' then Inr ''Bls12381G2Key2020''
                           else Inl (External ''unsupported keyID'')),
      bbs_DecodeProofValue = (\<lambda>s. Some s),
      bbs_DeriveProof =
        (\<lambda>signature publicKey statements indices nonce. Inr ''dummy signature proof value'')\<rparr>"

text \<open>The derived document of the example, as the example prints it.\<close>

definition derivedResidentCard :: Credential where
  "derivedResidentCard =
     \<lparr>vc_Context = [''https://www.w3.org/2018/credentials/v1'',
                    ''https://w3id.org/citizenship/v1'',
                    ''https://w3id.org/security/bbs/v1''],
      vc_ID = ''https://issuer.oidp.uscis.gov/credentials/83627465'',
      vc_Types = [''VerifiableCredential'', ''PermanentResidentCard''],
      vc_Subject =
        JObject [(''id'', JString ''did:example:b34ca6cd37bbf23''),
                 (''type'', JArray [JString ''PermanentResident'', JString ''Person'']),
                 (''givenName'', JString ''JOHN''),
                 (''familyName'', JString ''SMITH''),
                 (''gender'', JString ''Male'')],
      vc_Issuer = \<lparr>iss_ID = ''did:example:b34ca6cd37bbf23'', iss_CustomFields = []\<rparr>,
      vc_Issued = Some 1575375592,
      vc_Expired = None,
      vc_Schemas = [],
      vc_CustomFields = [(''identifier'', JString ''83627465'')],
      vc_Proofs =
        [[(''created'', JString ''2010-01-01T19:23:24Z''),
          (''proofPurpose'', JString ''assertionMethod''),
          (''proofValue'', JString ''ZHVtbXkgc2lnbmF0dXJlIHByb29mIHZhbHVl''),
          (''type'', JString ''BbsBlsSignatureProof2020''),
          (''verificationMethod'', JString ''did:example:123456#key1''),
          (''nonce'', JString ''c29tZSBub25jZQ=='')]]\<rparr>"

section \<open>Credentials as JWT claims\<close>

text \<open>
  The registered claims and the nested credential, as the payload of the examples has them:
  \<open>iss\<close>, \<open>sub\<close>, \<open>nbf\<close>, \<open>exp\<close>, \<open>iat\<close>, \<open>jti\<close> and \<open>vc\<close>. The numeric
  dates are seconds since the epoch; an absent claim is \<open>None\<close> or the empty string.
\<close>

record JWTCredClaims =
  claims_iss :: string
  claims_sub :: string
  claims_nbf :: "Time option"
  claims_exp :: "Time option"
  claims_iat :: "Time option"
  claims_jti :: string
  claims_vc :: Credential

text \<open>
  Modelled from the spec: the subject id that goes to \<open>sub\<close>: the \<open>id\<close> member of the
  subject payload, if it has one (empty otherwise).
\<close>

definition subjectID :: "json \<Rightarrow> string" where
  "subjectID subject =
     (case subject of
        JObject members \<Rightarrow> (case map_of members ''id'' of Some (JString i) \<Rightarrow> i | _ \<Rightarrow> '''')
      | _ \<Rightarrow> '''')"

text \<open>
  Modelled from the spec: \<open>toClaims\<close> (4.5), the method \<open>JWTClaims\<close> of a credential: the
  fixed fields go to the registered claims (issuer id to \<open>iss\<close>, subject id to \<open>sub\<close>,
  issuance date to \<open>nbf\<close>, expiration date to \<open>exp\<close>, credential id to \<open>jti\<close>) and the
  credential is nested under \<open>vc\<close>. With the flag set, as the examples call it, the nested
  credential leaves out what \<open>iss\<close>, \<open>nbf\<close>, \<open>exp\<close> and \<open>jti\<close> carry (the payload
  of the examples has, under \<open>vc\<close>, no id, no dates and an issuer without id, and keeps the
  subject with its id); without it the credential is nested in full.
\<close>

definition JWTClaims :: "Credential \<Rightarrow> bool \<Rightarrow> JWTCredClaims" where
  "JWTClaims vc minimizeVC =
     \<lparr>claims_iss = iss_ID (vc_Issuer vc),
      claims_sub = subjectID (vc_Subject vc),
      claims_nbf = vc_Issued vc,
      claims_exp = vc_Expired vc,
      claims_iat = vc_Issued vc,
      claims_jti = vc_ID vc,
      claims_vc =
        (if minimizeVC
         then vc\<lparr>vc_ID := '''', vc_Issuer := (vc_Issuer vc)\<lparr>iss_ID := ''''\<rparr>,
                 vc_Issued := None, vc_Expired := None\<rparr>
         else vc)\<rparr>"

text \<open>
  The compact JWS is kept as its three segments (header, payload, signature): the base64url
  text of each and the dots between them are not modelled. The other input \<open>parse\<close> takes
  is a credential in plain JSON.
\<close>

record JOSEHeader =
  hdr_alg :: string
  hdr_kid :: string
  hdr_typ :: string

datatype Encoded = CompactJWS JOSEHeader JWTCredClaims bytes | PlainJSON Credential

text \<open>
  What the codec takes from outside: the plain-JSON canonical bytes of header and claims
  that are signed, the \<open>verify\<close> of the suite for an algorithm, and the checker of embedded
  proofs for plain-JSON input.
\<close>

record 'k JWTCodec =
  jwt_SigningInput :: "JOSEHeader \<Rightarrow> JWTCredClaims \<Rightarrow> bytes"
  jwt_Verify :: "string \<Rightarrow> 'k \<Rightarrow> bytes \<Rightarrow> bytes \<Rightarrow> bool"
  jwt_Embedded :: "(Credential, 'k) ProofChecker"

text \<open>
  Modelled from the spec: \<open>toJWS\<close> (4.5), the method \<open>MarshalJWS\<close> of the claims with
  algorithm, signer and key id: the claims are canonicalized as plain JSON and signed by the
  signer, whose error is handed back unchanged.
\<close>

definition MarshalJWS ::
  "'k JWTCodec \<Rightarrow> JWTCredClaims \<Rightarrow> string \<Rightarrow> (bytes \<Rightarrow> error + bytes) \<Rightarrow> string \<Rightarrow> error + Encoded" where
  "MarshalJWS codec claims signatureAlg signer keyID =
     (let header = \<lparr>hdr_alg = signatureAlg, hdr_kid = keyID, hdr_typ = ''JWT''\<rparr>
      in case signer (jwt_SigningInput codec header claims) of
           Inl err \<Rightarrow> Inl err
         | Inr signature \<Rightarrow> Inr (CompactJWS header claims signature))"

text \<open>
  Modelled from the spec: the credential that \<open>parse\<close> reconstructs from the claims (4.5):
  the body of the \<open>vc\<close> claim merged with the registered claims, where a registered claim
  that is present takes precedence (\<open>nbf\<close> is the issuance date even if the body has one).
\<close>

text \<open>
  Modelled from the spec: a \<open>sub\<close> claim that is present is written to the \<open>id\<close> member
  of the subject payload.
\<close>

definition setSubjectID :: "string \<Rightarrow> json \<Rightarrow> json" where
  "setSubjectID i subject =
     (case subject of
        JObject members \<Rightarrow> JObject (setField ''id'' (JString i) members)
      | _ \<Rightarrow> subject)"

definition mergeClaims :: "JWTCredClaims \<Rightarrow> Credential" where
  "mergeClaims claims =
     (let body = claims_vc claims
      in body\<lparr>vc_ID := (if claims_jti claims = '''' then vc_ID body else claims_jti claims),
              vc_Issuer :=
                (if claims_iss claims = '''' then vc_Issuer body
                 else (vc_Issuer body)\<lparr>iss_ID := claims_iss claims\<rparr>),
              vc_Issued := (case claims_nbf claims of None \<Rightarrow> vc_Issued body | Some t \<Rightarrow> Some t),
              vc_Expired := (case claims_exp claims of None \<Rightarrow> vc_Expired body | Some t \<Rightarrow> Some t),
              vc_Subject :=
                (if claims_sub claims = '''' then vc_Subject body
                 else setSubjectID (claims_sub claims) (vc_Subject body))\<rparr>)"

text \<open>
  Modelled from the spec: \<open>parse\<close> (4.5), the function \<open>ParseCredential\<close>: it tells a
  compact JWS from plain JSON, verifies unless the caller disabled verification (a JWS
  against the key fetched for its issuer and key id, plain JSON by its embedded proofs), and
  reconstructs the credential.
\<close>

datatype 'k ProofCheck = WithDisabledProofCheck | WithPublicKeyFetcher "string \<Rightarrow> string \<Rightarrow> error + 'k"

definition ParseCredential :: "'k JWTCodec \<Rightarrow> Encoded \<Rightarrow> 'k ProofCheck \<Rightarrow> error + Credential" where
  "ParseCredential codec input check =
     (case input of
        CompactJWS header claims signature \<Rightarrow>
          (case check of
             WithDisabledProofCheck \<Rightarrow> Inr (mergeClaims claims)
           | WithPublicKeyFetcher fetch \<Rightarrow>
               (case fetch (claims_iss claims) (hdr_kid header) of
                  Inl err \<Rightarrow> Inl (VerificationError (hdr_kid header))
                | Inr publicKey \<Rightarrow>
                    if jwt_Verify codec (hdr_alg header) publicKey
                         (jwt_SigningInput codec header claims) signature
                    then Inr (mergeClaims claims)
                    else Inl (VerificationError (hdr_kid header))))
      | PlainJSON vc \<Rightarrow>
          (case check of
             WithDisabledProofCheck \<Rightarrow> Inr vc
           | WithPublicKeyFetcher fetch \<Rightarrow>
               (case Credential_verify ((jwt_Embedded codec)\<lparr>chk_PublicKeyFetcher := fetch\<rparr>) vc of
                  Inl err \<Rightarrow> Inl err
                | Inr ok \<Rightarrow> Inr vc)))"

text \<open>
  The embedding struct of the example: a credential (embedded by pointer, so that its methods,
  \<open>JWTClaims\<close> among them, are those of the credential) and a numeric field beside it.
\<close>

record UniversityDegreeCredential =
  udc_Credential :: Credential
  ReferenceNumber :: int

text \<open>
  The promoted method: \<open>vc.JWTClaims(true)\<close> on the struct is \<open>JWTClaims\<close> on the
  credential it embeds.
\<close>

definition UniversityDegreeCredential_JWTClaims :: "UniversityDegreeCredential \<Rightarrow> bool \<Rightarrow> JWTCredClaims" where
  "UniversityDegreeCredential_JWTClaims udc minimizeVC = JWTClaims (udc_Credential udc) minimizeVC"

subsection \<open>The JWT examples\<close>

text \<open>
  The credential of \<open>ExampleCredential_embedding\<close> (issued 2010-01-01T19:23:24Z, no
  extension fields, the reference number beside it), the claims its payload shows, and
  stand-ins for signer, verifier and fetcher.
\<close>

definition embeddedCredential :: Credential where
  "embeddedCredential =
     exampleCredential\<lparr>vc_Issued := Some 1262373804, vc_CustomFields := []\<rparr>"

definition exampleDegree :: UniversityDegreeCredential where
  "exampleDegree = \<lparr>udc_Credential = embeddedCredential, ReferenceNumber = 83294847\<rparr>"

definition exampleClaims :: JWTCredClaims where
  "exampleClaims =
     \<lparr>claims_iss = ''did:example:76e12ec712ebc6f1c221ebfeb1f'',
      claims_sub = ''did:example:ebfeb1f712ebc6f1c276e12ec21'',
      claims_nbf = Some 1262373804,
      claims_exp = Some 1577906604,
      claims_iat = Some 1262373804,
      claims_jti = ''http://example.edu/credentials/1872'',
      claims_vc =
        \<lparr>vc_Context = [''https://www.w3.org/2018/credentials/v1'',
                       ''https://www.w3.org/2018/credentials/examples/v1''],
         vc_ID = '''',
         vc_Types = [''VerifiableCredential'', ''UniversityDegreeCredential''],
         vc_Subject =
           JObject [(''degree'', JObject [(''type'', JString ''BachelorDegree''),
                                          (''university'', JString ''MIT'')]),
                    (''id'', JString ''did:example:ebfeb1f712ebc6f1c276e12ec21''),
                    (''name'', JString ''Jayden Doe''),
                    (''spouse'', JString ''did:example:c276e12ec21ebfeb1f712ebc6f1'')],
         vc_Issuer = \<lparr>iss_ID = '''', iss_CustomFields = [(''name'', JString ''Example University'')]\<rparr>,
         vc_Issued = None,
         vc_Expired = None,
         vc_Schemas = [],
         vc_CustomFields = [],
         vc_Proofs = []\<rparr>\<rparr>"

definition exampleCodec :: "string JWTCodec" where
  "exampleCodec =
     \<lparr>jwt_SigningInput = (\<lambda>header claims. hdr_alg header @ ''.'' @ claims_jti claims),
      jwt_Verify = (\<lambda>alg publicKey input signature. signature = publicKey @ '':'' @ input),
      jwt_Embedded = exampleChecker\<rparr>"

definition exampleSigner :: "bytes \<Rightarrow> error + bytes" where
  "exampleSigner data = Inr (''issuer-key:'' @ data)"

definition exampleFetcher :: "string \<Rightarrow> string \<Rightarrow> error + string" where
  "exampleFetcher issuerID keyID = Inr ''issuer-key''"

subsection \<open>An example command\<close>

text \<open>
  A command over stand-ins for its collaborators: a key manager holding \<open>key1\<close> and
  \<open>key2\<close>, a crypto service that tags what it signs, a registry that knows
  \<open>did:example:123\<close>, a store that knows \<open>did:example:456\<close>, parsers that know one raw
  credential and one raw presentation, and a marshaller that prints the holder and the number
  of proofs.
\<close>

definition exampleEngine :: "Presentation ProofEngine" where
  "exampleEngine =
     \<lparr>Canonicalize = (\<lambda>vp. Inr (''vp:'' @ Holder vp)),
      Now = 1262373804,
      FormatTime = (\<lambda>t. if t = 1262373804 then ''2010-01-01T19:23:24Z'' else ''1970-01-01T00:00:00Z''),
      EncodeJWS = (\<lambda>signature. ''header..'' @ signature),
      EncodeProofValue = (\<lambda>signature. signature)\<rparr>"

definition exampleCommand :: "nat Command" where
  "exampleCommand =
     \<lparr>KMS = (\<lambda>keyID. if keyID = ''key1'' then Inr 1 else if keyID = ''key2'' then Inr 2
                     else Inl (External ''key not found'')),
      Crypto = (\<lambda>data kh. Inr (''signed:'' @ data)),
      VDRIRegistry_Resolve =
        (\<lambda>did. if did = ''did:example:123'' then Inr docTwoAuth else Inl (External ''did not found'')),
      didStore_GetDID =
        (\<lambda>did. if did = ''did:example:456'' then Inr (docFlatKeys\<lparr>doc_ID := ''did:example:456''\<rparr>)
               else Inl (External ''did not found'')),
      verifiableStore_GetCredential =
        (\<lambda>id. if id = ''http://example.edu/credentials/1872'' then Inr exampleCredential
              else Inl (External ''credential not found'')),
      NewCredential =
        (\<lambda>raw skipVerify. if raw = ''vc'' then Inr exampleCredential else Inl (External ''invalid credential'')),
      NewUnverifiedPresentation =
        (\<lambda>raw. if raw = ''vp'' then Inr examplePresentation else Inl (External ''invalid presentation'')),
      Credential_Presentation =
        (\<lambda>vc. Inr \<lparr>vp_Context = vc_Context vc, vp_ID = '''', vp_Type = [''VerifiablePresentation''],
                    vp_credentials = [vc], Holder = '''', vp_Proofs = []\<rparr>),
      SetCredentials = (\<lambda>vp cs. Inr (vp\<lparr>vp_credentials := cs\<rparr>)),
      MarshalJSON = (\<lambda>vp. Inr (''holder='' @ Holder vp @ replicate (length (vp_Proofs vp)) CHR ''+'')),
      AddLinkedDataProof = Presentation_AddLinkedDataProof exampleEngine\<rparr>"

definition optsNotASuite :: ProofOptions where
  "optsNotASuite =
     \<lparr>VerificationMethod = ''did:example:123'', SignatureType = ''NotASuite'',
      Created = None, Domain = '''', Challenge = '''', proofPurpose = ''authentication''\<rparr>"

definition requestWithPresentation :: PresentationRequest where
  "requestWithPresentation =
     \<lparr>req_VerifiableCredentials = [], req_Presentation = ''vp'', req_DID = ''did:example:123'',
      req_ProofOptions =
        Some (emptyProofOptions\<lparr>VerificationMethod := ''did:example:123#key1'',
                                 SignatureType := ''Ed25519Signature2018''\<rparr>),
      req_SignatureType = ''Ed25519Signature2018'', req_SkipVerify = True\<rparr>"

section \<open>Properties of verification-method resolution\<close>

subsection \<open>The scan over the authentication methods\<close>

lemma matchAuthVMs_given_fst: "v \<noteq> '''' \<Longrightarrow> fst (matchAuthVMs v m vms) = v"
  by (induction vms) auto

lemma matchAuthVMs_given_snd:
  "v \<noteq> '''' \<Longrightarrow> snd (matchAuthVMs v m vms) = (m \<or> v \<in> set (keyIDs vms))"
  by (induction vms) (auto simp: keyIDs_def)

lemma prepareOpts_given:
  assumes "VerificationMethod p \<noteq> ''''"
  shows "prepareOpts (Some p) d =
     (p\<lparr>proofPurpose := ''authentication''\<rparr>,
      if VerificationMethod p \<in> set (keyIDs (doc_VerificationMethods_Authentication d))
      then Inr (p\<lparr>proofPurpose := ''authentication''\<rparr>)
      else Inl NoMatchingVerificationMethod)"
  using assms
  by (simp add: prepareOpts_def Let_def matchAuthVMs_given_fst matchAuthVMs_given_snd)




lemma prepareOpts_fst_shape:
  "fst (prepareOpts (Some p) d) =
     p\<lparr>proofPurpose := ''authentication'',
       VerificationMethod := VerificationMethod (fst (prepareOpts (Some p) d))\<rparr>"
  by (simp add: prepareOpts_def Let_def split: sum.splits)

lemma prepareOpts_returns_object:
  "snd (prepareOpts o1 d) = Inr q \<Longrightarrow> q = fst (prepareOpts o1 d)"
  by (auto simp: prepareOpts_def Let_def split: sum.splits if_splits)

subsection \<open>Resolution with and without a requested method\<close>




subsection \<open>The default verification method\<close>




subsection \<open>What preparing the options changes\<close>

text \<open>
  Claim C8. Preparing proof options changes the caller's options object only to fill in
  resolved defaults. A non-empty verification method is left exactly as supplied, and the
  call fails when it matches no listed authentication method; the field differs after the
  call only if it was empty before; the proof purpose is set to \<open>authentication\<close>, and
  signature type, created, domain and challenge are as supplied. On success the returned
  pointer is the caller's object.
\<close>

theorem prepareOpts_frame:
  "(VerificationMethod p \<noteq> '''' \<longrightarrow>
      VerificationMethod (fst (prepareOpts (Some p) d)) = VerificationMethod p
      \<and> (VerificationMethod p \<notin> set (keyIDs (doc_VerificationMethods_Authentication d)) \<longrightarrow>
           snd (prepareOpts (Some p) d) = Inl NoMatchingVerificationMethod))
   \<and> (VerificationMethod (fst (prepareOpts (Some p) d)) \<noteq> VerificationMethod p \<longrightarrow>
        VerificationMethod p = '''')
   \<and> proofPurpose (fst (prepareOpts (Some p) d)) = ''authentication''
   \<and> SignatureType (fst (prepareOpts (Some p) d)) = SignatureType p
   \<and> Created (fst (prepareOpts (Some p) d)) = Created p
   \<and> Domain (fst (prepareOpts (Some p) d)) = Domain p
   \<and> Challenge (fst (prepareOpts (Some p) d)) = Challenge p
   \<and> (\<forall>q. snd (prepareOpts (Some p) d) = Inr q \<longrightarrow> q = fst (prepareOpts (Some p) d))"
proof -
  have given: "VerificationMethod p \<noteq> '''' \<Longrightarrow>
      VerificationMethod (fst (prepareOpts (Some p) d)) = VerificationMethod p
      \<and> (VerificationMethod p \<notin> set (keyIDs (doc_VerificationMethods_Authentication d)) \<longrightarrow>
           snd (prepareOpts (Some p) d) = Inl NoMatchingVerificationMethod)"
    by (simp add: prepareOpts_given)
  have shape: "fst (prepareOpts (Some p) d) =
     p\<lparr>proofPurpose := ''authentication'',
       VerificationMethod := VerificationMethod (fst (prepareOpts (Some p) d))\<rparr>"
    by (rule prepareOpts_fst_shape)
  have purpose: "proofPurpose (fst (prepareOpts (Some p) d)) = ''authentication''"
    by (subst shape) simp
  have sigtype: "SignatureType (fst (prepareOpts (Some p) d)) = SignatureType p"
    by (subst shape) simp
  have created: "Created (fst (prepareOpts (Some p) d)) = Created p"
    by (subst shape) simp
  have domain: "Domain (fst (prepareOpts (Some p) d)) = Domain p"
    by (subst shape) simp
  have challenge: "Challenge (fst (prepareOpts (Some p) d)) = Challenge p"
    by (subst shape) simp
  show ?thesis
    using given purpose sigtype created domain challenge prepareOpts_returns_object [of "Some p" d]
    by blast
qed

text \<open>
  The theorem at options with every field set: with the listed \<open>#key2\<close> requested the
  object comes back with only the purpose set; with the unlisted \<open>#key3\<close> requested the
  call fails and the requested id is still in place; with nothing requested the empty field
  is filled with \<open>#key1\<close>.
\<close>

theorem prepareOpts_frame_witness:
  "prepareOpts (Some optsAllSet) docTwoAuth =
     (optsAllSet\<lparr>proofPurpose := ''authentication''\<rparr>,
      Inr (optsAllSet\<lparr>proofPurpose := ''authentication''\<rparr>))
   \<and> VerificationMethod (fst (prepareOpts
         (Some (optsAllSet\<lparr>VerificationMethod := ''did:example:123#key3''\<rparr>)) docTwoAuth)) =
       ''did:example:123#key3''
   \<and> snd (prepareOpts (Some (optsAllSet\<lparr>VerificationMethod := ''did:example:123#key3''\<rparr>)) docTwoAuth) =
       Inl NoMatchingVerificationMethod
   \<and> VerificationMethod (fst (prepareOpts (Some (optsAllSet\<lparr>VerificationMethod := ''''\<rparr>)) docTwoAuth)) =
       ''did:example:123#key1''
   \<and> Challenge (fst (prepareOpts (Some (optsAllSet\<lparr>VerificationMethod := ''''\<rparr>)) docTwoAuth)) =
       ''sample-challenge''"
proof -
  have listed: "prepareOpts (Some optsAllSet) docTwoAuth =
     (optsAllSet\<lparr>proofPurpose := ''authentication''\<rparr>,
      Inr (optsAllSet\<lparr>proofPurpose := ''authentication''\<rparr>))"
    by (simp add: prepareOpts_given optsAllSet_def docTwoAuth_def keyIDs_def)
  have unlisted: "VerificationMethod (fst (prepareOpts
         (Some (optsAllSet\<lparr>VerificationMethod := ''did:example:123#key3''\<rparr>)) docTwoAuth)) =
       ''did:example:123#key3''
     \<and> snd (prepareOpts (Some (optsAllSet\<lparr>VerificationMethod := ''did:example:123#key3''\<rparr>)) docTwoAuth) =
       Inl NoMatchingVerificationMethod"
    using prepareOpts_frame [of "optsAllSet\<lparr>VerificationMethod := ''did:example:123#key3''\<rparr>" docTwoAuth]
    by (simp add: docTwoAuth_def keyIDs_def)
  have filled: "VerificationMethod (fst (prepareOpts (Some (optsAllSet\<lparr>VerificationMethod := ''''\<rparr>)) docTwoAuth)) =
       ''did:example:123#key1''"
    by (simp add: prepareOpts_def Let_def docTwoAuth_def)
  have kept: "Challenge (fst (prepareOpts (Some (optsAllSet\<lparr>VerificationMethod := ''''\<rparr>)) docTwoAuth)) =
       ''sample-challenge''"
    using prepareOpts_frame [of "optsAllSet\<lparr>VerificationMethod := ''''\<rparr>" docTwoAuth]
    by (simp add: optsAllSet_def)
  show ?thesis
    using listed unlisted filled kept by simp
qed

section \<open>Properties of the signer and of adding a proof\<close>

subsection \<open>Splitting the creator\<close>

lemma length_Split: "length (Split s c) = Suc (count_list s c)"
  by (induction s) (auto split: list.splits)

lemma Split_no_sep: "c \<notin> set s \<Longrightarrow> Split s c = [s]"
  by (induction s) auto

lemma Split_append_sep: "c \<notin> set a \<Longrightarrow> Split (a @ c # b) c = a # Split b c"
  by (induction a) auto

lemma Split_one_sep:
  "c \<notin> set a \<Longrightarrow> c \<notin> set b \<Longrightarrow> Split (a @ c # b) c = [a, b]"
  by (simp add: Split_append_sep Split_no_sep)

lemma count_one_decomp:
  "count_list s c = 1 \<Longrightarrow> \<exists>a b. s = a @ c # b \<and> c \<notin> set a \<and> c \<notin> set b"
proof (induction s)
  case Nil
  then show ?case by simp
next
  case (Cons x xs)
  show ?case
  proof (cases "x = c")
    case True
    with Cons.prems have "count_list xs c = 0" by simp
    then have "c \<notin> set xs" by (simp add: count_list_0_iff)
    with True show ?thesis by (intro exI [of _ "[]"] exI [of _ xs]) simp
  next
    case False
    with Cons.prems have "count_list xs c = 1" by simp
    from Cons.IH [OF this] obtain a b where "xs = a @ c # b" "c \<notin> set a" "c \<notin> set b" by blast
    with False show ?thesis by (intro exI [of _ "x # a"] exI [of _ b]) simp
  qed
qed

lemma newKMSSigner_wrong:
  "count_list creator CHR ''#'' \<noteq> 1 \<Longrightarrow>
     newKMSSigner keyManager c creator = Inl (WrongID (Split creator CHR ''#''))"
  by (simp add: newKMSSigner_def Let_def creatorParts_def length_Split)

lemma newKMSSigner_split:
  "CHR ''#'' \<notin> set didID \<Longrightarrow> CHR ''#'' \<notin> set keyID \<Longrightarrow>
     newKMSSigner keyManager c (didID @ ''#'' @ keyID) =
       (case keyManager keyID of
          Inl err \<Rightarrow> Inl err
        | Inr h \<Rightarrow> Inr \<lparr>keyHandle = h, crypto = c\<rparr>)"
  by (simp add: newKMSSigner_def Let_def creatorParts_def Split_one_sep)

lemma addLinkedDataProof_signer_error:
  "newKMSSigner (KMS o') (Crypto o') (VerificationMethod opts) = Inl err \<Longrightarrow>
     addLinkedDataProof o' vp opts = (vp, Inl err)"
  by (simp add: addLinkedDataProof_def)

text \<open>
  Claim C9. The verification method must split on \<open>#\<close> into exactly two parts. If it
  holds no \<open>#\<close> or more than one, constructing the signer fails with the wrong-id error
  (which carries the parts), and \<open>addLinkedDataProof\<close> returns that error with the
  presentation as it was, whatever the signature type and the collaborators are: no suite is
  selected and no proof is built. If it holds exactly one \<open>#\<close>, it is
  \<open>didID#keyID\<close> and the key manager is asked for \<open>keyID\<close> alone; its answer decides
  the result.
\<close>

theorem newKMSSigner_creator_parts:
  "(count_list creator CHR ''#'' \<noteq> 1 \<longrightarrow>
      newKMSSigner keyManager c creator = Inl (WrongID (Split creator CHR ''#''))
      \<and> (VerificationMethod opts = creator \<longrightarrow>
           addLinkedDataProof o' vp opts = (vp, Inl (WrongID (Split creator CHR ''#'')))))
   \<and> (count_list creator CHR ''#'' = 1 \<longrightarrow>
        (\<exists>didID keyID.
           creator = didID @ ''#'' @ keyID \<and> CHR ''#'' \<notin> set didID \<and> CHR ''#'' \<notin> set keyID
           \<and> newKMSSigner keyManager c creator =
               (case keyManager keyID of
                  Inl err \<Rightarrow> Inl err
                | Inr h \<Rightarrow> Inr \<lparr>keyHandle = h, crypto = c\<rparr>)))"
proof (intro conjI impI)
  assume "count_list creator CHR ''#'' \<noteq> 1"
  then show "newKMSSigner keyManager c creator = Inl (WrongID (Split creator CHR ''#''))"
    by (rule newKMSSigner_wrong)
next
  assume "count_list creator CHR ''#'' \<noteq> 1" and "VerificationMethod opts = creator"
  then show "addLinkedDataProof o' vp opts = (vp, Inl (WrongID (Split creator CHR ''#'')))"
    by (simp add: addLinkedDataProof_signer_error newKMSSigner_wrong)
next
  assume "count_list creator CHR ''#'' = 1"
  from count_one_decomp [OF this] obtain a b
    where "creator = a @ CHR ''#'' # b" "CHR ''#'' \<notin> set a" "CHR ''#'' \<notin> set b" by blast
  then show "\<exists>didID keyID.
           creator = didID @ ''#'' @ keyID \<and> CHR ''#'' \<notin> set didID \<and> CHR ''#'' \<notin> set keyID
           \<and> newKMSSigner keyManager c creator =
               (case keyManager keyID of
                  Inl err \<Rightarrow> Inl err
                | Inr h \<Rightarrow> Inr \<lparr>keyHandle = h, crypto = c\<rparr>)"
    using newKMSSigner_split [of a b keyManager c]
    by (intro exI [of _ a] exI [of _ b]) simp
qed

text \<open>
  The theorem at \<open>did:example:123\<close> (no \<open>#\<close>: the wrong-id error, the presentation
  untouched) and at \<open>did:example:123#key1\<close> (the key manager is asked for \<open>key1\<close>).
\<close>

theorem newKMSSigner_creator_parts_witness:
  "count_list ''did:example:123'' CHR ''#'' \<noteq> 1
   \<and> newKMSSigner (KMS exampleCommand) (Crypto exampleCommand) ''did:example:123'' =
       Inl (WrongID [''did:example:123''])
   \<and> addLinkedDataProof exampleCommand examplePresentation optsNotASuite =
       (examplePresentation, Inl (WrongID [''did:example:123'']))
   \<and> count_list ''did:example:123#key1'' CHR ''#'' = 1
   \<and> (\<exists>didID keyID.
         ''did:example:123#key1'' = didID @ ''#'' @ keyID
         \<and> CHR ''#'' \<notin> set didID \<and> CHR ''#'' \<notin> set keyID
         \<and> newKMSSigner (KMS exampleCommand) (Crypto exampleCommand) ''did:example:123#key1'' =
             (case KMS exampleCommand keyID of
                Inl err \<Rightarrow> Inl err
              | Inr h \<Rightarrow> Inr \<lparr>keyHandle = h, crypto = Crypto exampleCommand\<rparr>))"
proof -
  have none: "count_list ''did:example:123'' CHR ''#'' \<noteq> 1"
    by simp
  have one: "count_list ''did:example:123#key1'' CHR ''#'' = 1"
    by simp
  have split: "Split ''did:example:123'' CHR ''#'' = [''did:example:123'']"
    by simp
  have vm: "VerificationMethod optsNotASuite = ''did:example:123''"
    by (simp add: optsNotASuite_def)
  note wrong = newKMSSigner_creator_parts
    [of "''did:example:123''" "KMS exampleCommand" "Crypto exampleCommand" optsNotASuite
      exampleCommand examplePresentation]
  note right = newKMSSigner_creator_parts
    [of "''did:example:123#key1''" "KMS exampleCommand" "Crypto exampleCommand" optsNotASuite
      exampleCommand examplePresentation]
  from wrong none vm split
  have a: "newKMSSigner (KMS exampleCommand) (Crypto exampleCommand) ''did:example:123'' =
       Inl (WrongID [''did:example:123''])
     \<and> addLinkedDataProof exampleCommand examplePresentation optsNotASuite =
       (examplePresentation, Inl (WrongID [''did:example:123'']))"
    by simp
  from right one
  have b: "\<exists>didID keyID.
         ''did:example:123#key1'' = didID @ ''#'' @ keyID
         \<and> CHR ''#'' \<notin> set didID \<and> CHR ''#'' \<notin> set keyID
         \<and> newKMSSigner (KMS exampleCommand) (Crypto exampleCommand) ''did:example:123#key1'' =
             (case KMS exampleCommand keyID of
                Inl err \<Rightarrow> Inl err
              | Inr h \<Rightarrow> Inr \<lparr>keyHandle = h, crypto = Crypto exampleCommand\<rparr>)"
    by blast
  from none one a b show ?thesis by blast
qed

subsection \<open>An unsupported signature type\<close>

text \<open>
  Claim C3, as amended. For every request whose signature type is neither
  \<open>Ed25519Signature2018\<close> nor \<open>JsonWebSignature2020\<close>, the operation returns an error
  and leaves the presentation, and so its proof collection, exactly as it was. The error is the
  unsupported-signature-type error when the signer for the verification method can be
  constructed; otherwise it is the error of constructing the signer (wrong id, or the key
  manager's), which comes first.
\<close>

theorem addLinkedDataProof_unsupported_suite:
  assumes "SignatureType opts \<noteq> Ed25519Signature2018"
    and "SignatureType opts \<noteq> JSONWebSignature2020"
  shows "fst (addLinkedDataProof o' vp opts) = vp
     \<and> snd (addLinkedDataProof o' vp opts) =
         (case newKMSSigner (KMS o') (Crypto o') (VerificationMethod opts) of
            Inl err \<Rightarrow> Inl err
          | Inr s \<Rightarrow> Inl (SignatureTypeUnsupported (SignatureType opts)))"
  using assms by (simp add: addLinkedDataProof_def split: sum.splits)

text \<open>
  The theorem at the suite name \<open>NotASuite\<close> with the verification method
  \<open>did:example:123#key1\<close>, whose key the key manager holds.
\<close>

theorem addLinkedDataProof_unsupported_suite_witness:
  "SignatureType (optsNotASuite\<lparr>VerificationMethod := ''did:example:123#key1''\<rparr>) \<noteq> Ed25519Signature2018
   \<and> SignatureType (optsNotASuite\<lparr>VerificationMethod := ''did:example:123#key1''\<rparr>) \<noteq> JSONWebSignature2020
   \<and> fst (addLinkedDataProof exampleCommand examplePresentation
             (optsNotASuite\<lparr>VerificationMethod := ''did:example:123#key1''\<rparr>)) = examplePresentation
   \<and> snd (addLinkedDataProof exampleCommand examplePresentation
             (optsNotASuite\<lparr>VerificationMethod := ''did:example:123#key1''\<rparr>)) =
       Inl (SignatureTypeUnsupported ''NotASuite'')"
proof -
  have a: "SignatureType (optsNotASuite\<lparr>VerificationMethod := ''did:example:123#key1''\<rparr>) \<noteq> Ed25519Signature2018"
    by (simp add: optsNotASuite_def Ed25519Signature2018_def)
  have b: "SignatureType (optsNotASuite\<lparr>VerificationMethod := ''did:example:123#key1''\<rparr>) \<noteq> JSONWebSignature2020"
    by (simp add: optsNotASuite_def JSONWebSignature2020_def)
  have signer: "newKMSSigner (KMS exampleCommand) (Crypto exampleCommand) ''did:example:123#key1'' =
      Inr \<lparr>keyHandle = 1, crypto = Crypto exampleCommand\<rparr>"
    by (simp add: newKMSSigner_def creatorParts_def exampleCommand_def)
  show ?thesis
    using a b addLinkedDataProof_unsupported_suite [OF a b, of exampleCommand examplePresentation]
    by (simp add: signer) (simp add: optsNotASuite_def)
qed

text \<open>
  Claim C3 as stated fails where the verification method does not split into two parts: with
  the suite name \<open>NotASuite\<close> and the verification method \<open>did:example:123\<close> the
  operation returns the wrong-id error, not the unsupported-signature-type error.
\<close>

theorem addLinkedDataProof_unsupported_suite_counterexample:
  "SignatureType optsNotASuite \<noteq> Ed25519Signature2018
   \<and> SignatureType optsNotASuite \<noteq> JSONWebSignature2020
   \<and> snd (addLinkedDataProof exampleCommand examplePresentation optsNotASuite) =
       Inl (WrongID [''did:example:123''])
   \<and> snd (addLinkedDataProof exampleCommand examplePresentation optsNotASuite) \<noteq>
       Inl (SignatureTypeUnsupported (SignatureType optsNotASuite))"
  by (simp add: optsNotASuite_def addLinkedDataProof_def newKMSSigner_def creatorParts_def
      Ed25519Signature2018_def JSONWebSignature2020_def)

subsection \<open>The holder of a generated presentation\<close>

lemma addLinkedDataProof_Inr:
  "snd (addLinkedDataProof o' vp opts) = Inr vp' \<Longrightarrow>
     \<exists>ctx. AddLinkedDataProof o' vp ctx = Inr vp'
          \<and> ctx_VerificationMethod ctx = VerificationMethod opts
          \<and> ctx_SignatureType ctx = SignatureType opts"
  by (auto simp: addLinkedDataProof_def Let_def split: sum.splits if_splits)

lemma keepsHolderD:
  "keepsHolder o' \<Longrightarrow> AddLinkedDataProof o' vp ctx = Inr vp' \<Longrightarrow> Holder vp' = Holder vp"
  unfolding keepsHolder_def by blast

lemma createAndSignPresentation_Inr:
  assumes "createAndSignPresentation o' credentials vp holder opts = Inr bs"
  shows "\<exists>vp1 ctx vp2.
           AddLinkedDataProof o' (vp1\<lparr>Holder := holder\<rparr>) ctx = Inr vp2
           \<and> MarshalJSON o' vp2 = Inr bs
           \<and> (\<forall>p. vp = Some p \<longrightarrow> vp1 = p)
           \<and> (keepsHolder o' \<longrightarrow> Holder vp2 = holder)"
proof -
  from assms obtain vp1 vp2 where
    vp1: "\<forall>p. vp = Some p \<longrightarrow> vp1 = p"
    and signed: "snd (addLinkedDataProof o' (vp1\<lparr>Holder := holder\<rparr>) opts) = Inr vp2"
    and bs: "MarshalJSON o' vp2 = Inr bs"
    by (auto simp: createAndSignPresentation_def split: sum.splits option.splits list.splits)
  from addLinkedDataProof_Inr [OF signed] obtain ctx
    where added: "AddLinkedDataProof o' (vp1\<lparr>Holder := holder\<rparr>) ctx = Inr vp2" by blast
  have "keepsHolder o' \<longrightarrow> Holder vp2 = holder"
    using keepsHolderD [OF _ added] by simp
  with added bs vp1 show ?thesis by blast
qed

lemma createAndSignPresentationByID_Inr:
  assumes "createAndSignPresentationByID o' vc didDoc signatureType = Inr bs"
  shows "\<exists>vp0 ctx vp2.
           Credential_Presentation o' vc = Inr vp0
           \<and> AddLinkedDataProof o' vp0 ctx = Inr vp2
           \<and> MarshalJSON o' vp2 = Inr bs
           \<and> (keepsHolder o' \<longrightarrow> Holder vp2 = Holder vp0)"
proof -
  from assms obtain pk vp0 vp2 where
    vp0: "Credential_Presentation o' vc = Inr vp0"
    and signed: "snd (addLinkedDataProof o' vp0
                   (emptyProofOptions\<lparr>VerificationMethod := pk, SignatureType := signatureType\<rparr>)) = Inr vp2"
    and bs: "MarshalJSON o' vp2 = Inr bs"
    by (auto simp: createAndSignPresentationByID_def split: sum.splits)
  from addLinkedDataProof_Inr [OF signed] obtain ctx
    where added: "AddLinkedDataProof o' vp0 ctx = Inr vp2" by blast
  have "keepsHolder o' \<longrightarrow> Holder vp2 = Holder vp0"
    using keepsHolderD [OF _ added] by simp
  with vp0 added bs show ?thesis by blast
qed

lemma GeneratePresentation_Inr:
  assumes "GeneratePresentation o' request = Inr bs"
  shows "\<exists>didDoc vp1 ctx vp2.
           (VDRIRegistry_Resolve o' (req_DID request) = Inr didDoc
            \<or> (\<exists>e. VDRIRegistry_Resolve o' (req_DID request) = Inl e)
               \<and> didStore_GetDID o' (req_DID request) = Inr didDoc)
           \<and> AddLinkedDataProof o' (vp1\<lparr>Holder := doc_ID didDoc\<rparr>) ctx = Inr vp2
           \<and> MarshalJSON o' vp2 = Inr bs
           \<and> (req_VerifiableCredentials request = [] \<longrightarrow>
                NewUnverifiedPresentation o' (req_Presentation request) = Inr vp1)
           \<and> (keepsHolder o' \<longrightarrow> Holder vp2 = doc_ID didDoc)"
proof -
  from assms obtain didDoc credentials presentation opts where
    doc: "VDRIRegistry_Resolve o' (req_DID request) = Inr didDoc
            \<or> (\<exists>e. VDRIRegistry_Resolve o' (req_DID request) = Inl e)
               \<and> didStore_GetDID o' (req_DID request) = Inr didDoc"
    and parsed: "parsePresentationRequest o' request didDoc = Inr (credentials, presentation, opts)"
    and signed: "createAndSignPresentation o' credentials presentation (doc_ID didDoc) opts = Inr bs"
    by (auto simp: GeneratePresentation_def generatePresentation_def split: sum.splits prod.splits)
  from parsed have given: "req_VerifiableCredentials request = [] \<Longrightarrow>
      \<exists>p. presentation = Some p \<and> NewUnverifiedPresentation o' (req_Presentation request) = Inr p"
    by (auto simp: parsePresentationRequest_def split: if_splits sum.splits prod.splits)
  from createAndSignPresentation_Inr [OF signed] obtain vp1 ctx vp2 where
    added: "AddLinkedDataProof o' (vp1\<lparr>Holder := doc_ID didDoc\<rparr>) ctx = Inr vp2"
    and bs: "MarshalJSON o' vp2 = Inr bs"
    and vp1: "\<forall>p. presentation = Some p \<longrightarrow> vp1 = p"
    and holder: "keepsHolder o' \<longrightarrow> Holder vp2 = doc_ID didDoc"
    by blast
  from given vp1 have "req_VerifiableCredentials request = [] \<longrightarrow>
      NewUnverifiedPresentation o' (req_Presentation request) = Inr vp1"
    by auto
  with doc added bs holder show ?thesis by blast
qed

text \<open>
  Claim C10. Whenever \<open>GeneratePresentation\<close> succeeds, the bytes it writes are the
  marshalled form of what \<open>AddLinkedDataProof\<close> returned for a presentation whose holder
  had been set to the id of the identity document that was resolved (from the registry or,
  failing that, from the store); for a request that gives a presentation, that is the given
  presentation with its holder replaced, whatever it was. As \<open>AddLinkedDataProof\<close> leaves
  the holder alone, the signed presentation's holder is that id. The same holds one level
  down for \<open>createAndSignPresentation\<close> and the holder it is passed. On the path by
  stored credential id the presentation made from the credential goes to
  \<open>AddLinkedDataProof\<close> as it is: the holder is not set, only the proof is added.
\<close>

theorem GeneratePresentation_holder:
  "(GeneratePresentation o' request = Inr bs \<longrightarrow>
      (\<exists>didDoc vp1 ctx vp2.
         (VDRIRegistry_Resolve o' (req_DID request) = Inr didDoc
          \<or> (\<exists>e. VDRIRegistry_Resolve o' (req_DID request) = Inl e)
             \<and> didStore_GetDID o' (req_DID request) = Inr didDoc)
         \<and> AddLinkedDataProof o' (vp1\<lparr>Holder := doc_ID didDoc\<rparr>) ctx = Inr vp2
         \<and> MarshalJSON o' vp2 = Inr bs
         \<and> (req_VerifiableCredentials request = [] \<longrightarrow>
              NewUnverifiedPresentation o' (req_Presentation request) = Inr vp1)
         \<and> (keepsHolder o' \<longrightarrow> Holder vp2 = doc_ID didDoc)))
   \<and> (createAndSignPresentation o' credentials vp holder opts = Inr bs1 \<longrightarrow>
        (\<exists>vp1 ctx vp2.
           AddLinkedDataProof o' (vp1\<lparr>Holder := holder\<rparr>) ctx = Inr vp2
           \<and> MarshalJSON o' vp2 = Inr bs1
           \<and> (\<forall>p. vp = Some p \<longrightarrow> vp1 = p)
           \<and> (keepsHolder o' \<longrightarrow> Holder vp2 = holder)))
   \<and> (createAndSignPresentationByID o' vc didDoc signatureType = Inr bs2 \<longrightarrow>
        (\<exists>vp0 ctx vp2.
           Credential_Presentation o' vc = Inr vp0
           \<and> AddLinkedDataProof o' vp0 ctx = Inr vp2
           \<and> MarshalJSON o' vp2 = Inr bs2
           \<and> (keepsHolder o' \<longrightarrow> Holder vp2 = Holder vp0)))"
  using GeneratePresentation_Inr [of o' request bs]
    createAndSignPresentation_Inr [of o' credentials vp holder opts bs1]
    createAndSignPresentationByID_Inr [of o' vc didDoc signatureType bs2]
  by blast

lemma Presentation_AddLinkedDataProof_Holder:
  "Presentation_AddLinkedDataProof eng vp ctx = Inr vp' \<Longrightarrow> Holder vp' = Holder vp"
  by (auto simp: Presentation_AddLinkedDataProof_def split: sum.splits)

lemma exampleCommand_keepsHolder: "keepsHolder exampleCommand"
  unfolding keepsHolder_def
  by (simp add: exampleCommand_def Presentation_AddLinkedDataProof_Holder)

lemma sign_example:
  "snd (addLinkedDataProof exampleCommand vp
      \<lparr>VerificationMethod = ''did:example:123#key1'', SignatureType = ''Ed25519Signature2018'',
       Created = None, Domain = [], Challenge = [], proofPurpose = pp\<rparr>) =
     Inr (vp\<lparr>vp_Proofs := vp_Proofs vp @
        [buildProof exampleEngine
          \<lparr>ctx_VerificationMethod = ''did:example:123#key1'',
           ctx_SignatureRepresentation = SignatureJWS,
           ctx_SignatureType = ''Ed25519Signature2018'',
           ctx_Suite = Ed25519Signature2018Suite \<lparr>keyHandle = 1, crypto = Crypto exampleCommand\<rparr>,
           ctx_Created = None, ctx_Domain = [], ctx_Challenge = [], ctx_Purpose = pp\<rparr>
          (''signed:vp:'' @ Holder vp)]\<rparr>)"
proof -
  have signer: "newKMSSigner (KMS exampleCommand) (Crypto exampleCommand) ''did:example:123#key1'' =
      Inr \<lparr>keyHandle = 1, crypto = Crypto exampleCommand\<rparr>"
    by (simp add: newKMSSigner_def creatorParts_def exampleCommand_def)
  have eng: "AddLinkedDataProof exampleCommand = Presentation_AddLinkedDataProof exampleEngine"
    by (simp add: exampleCommand_def)
  have sgn: "Sign \<lparr>keyHandle = h, crypto = Crypto exampleCommand\<rparr> data = Inr (''signed:'' @ data)" for data h
    by (simp add: Sign_def exampleCommand_def)
  have can: "Canonicalize exampleEngine vp = Inr (''vp:'' @ Holder vp)"
    by (simp add: exampleEngine_def)
  show ?thesis
    by (simp add: addLinkedDataProof_def Let_def signer eng Ed25519Signature2018_def
        Presentation_AddLinkedDataProof_def addProof_def suiteSigner_def sgn can)
qed

lemma GeneratePresentation_example:
  "GeneratePresentation exampleCommand requestWithPresentation = Inr ''holder=did:example:123+''"
proof -
  have opts: "snd (prepareOpts (req_ProofOptions requestWithPresentation) docTwoAuth) =
      Inr (emptyProofOptions\<lparr>VerificationMethod := ''did:example:123#key1'',
             SignatureType := ''Ed25519Signature2018'', proofPurpose := ''authentication''\<rparr>)"
    by (simp add: requestWithPresentation_def prepareOpts_given emptyProofOptions_def docTwoAuth_def
        keyIDs_def)
  have parsed: "parsePresentationRequest exampleCommand requestWithPresentation docTwoAuth =
      Inr ([], Some examplePresentation,
           emptyProofOptions\<lparr>VerificationMethod := ''did:example:123#key1'',
             SignatureType := ''Ed25519Signature2018'', proofPurpose := ''authentication''\<rparr>)"
    unfolding parsePresentationRequest_def opts
    by (simp add: requestWithPresentation_def exampleCommand_def)
  have signed: "createAndSignPresentation exampleCommand [] (Some examplePresentation) ''did:example:123''
      (emptyProofOptions\<lparr>VerificationMethod := ''did:example:123#key1'',
             SignatureType := ''Ed25519Signature2018'', proofPurpose := ''authentication''\<rparr>)
      = Inr ''holder=did:example:123+''"
    unfolding createAndSignPresentation_def
    by (simp add: emptyProofOptions_def sign_example) (simp add: exampleCommand_def examplePresentation_def)
  have doc: "VDRIRegistry_Resolve exampleCommand (req_DID requestWithPresentation) = Inr docTwoAuth"
    by (simp add: exampleCommand_def requestWithPresentation_def)
  have id: "doc_ID docTwoAuth = ''did:example:123''"
    by (simp add: docTwoAuth_def)
  show ?thesis
    unfolding GeneratePresentation_def doc
    by (simp add: parsed generatePresentation_def id signed)
qed

lemma createAndSignPresentationByID_example:
  "createAndSignPresentationByID exampleCommand exampleCredential docTwoAuth ''Ed25519Signature2018'' =
     Inr ''holder=+''"
proof -
  have pk: "getDefaultVerificationMethod docTwoAuth = Inr ''did:example:123#key1''"
    by (simp add: getDefaultVerificationMethod_def docTwoAuth_def)
  have vp: "Credential_Presentation exampleCommand exampleCredential =
      Inr \<lparr>vp_Context = vc_Context exampleCredential, vp_ID = '''', vp_Type = [''VerifiablePresentation''],
                    vp_credentials = [exampleCredential], Holder = '''', vp_Proofs = []\<rparr>"
    by (simp add: exampleCommand_def)
  show ?thesis
    unfolding createAndSignPresentationByID_def pk vp
    by (simp add: emptyProofOptions_def sign_example) (simp add: exampleCommand_def)
qed

text \<open>
  The theorem at a request that gives a presentation whose holder is not the resolved
  document's id, and at the stored example credential: the first marshals with the holder
  \<open>did:example:123\<close>, the second with the empty holder of the presentation made from the
  credential.
\<close>

theorem GeneratePresentation_holder_witness:
  "GeneratePresentation exampleCommand requestWithPresentation = Inr ''holder=did:example:123+''
   \<and> Holder examplePresentation \<noteq> ''did:example:123''
   \<and> keepsHolder exampleCommand
   \<and> (\<exists>didDoc vp1 ctx vp2.
         (VDRIRegistry_Resolve exampleCommand (req_DID requestWithPresentation) = Inr didDoc
          \<or> (\<exists>e. VDRIRegistry_Resolve exampleCommand (req_DID requestWithPresentation) = Inl e)
             \<and> didStore_GetDID exampleCommand (req_DID requestWithPresentation) = Inr didDoc)
         \<and> AddLinkedDataProof exampleCommand (vp1\<lparr>Holder := doc_ID didDoc\<rparr>) ctx = Inr vp2
         \<and> MarshalJSON exampleCommand vp2 = Inr ''holder=did:example:123+''
         \<and> vp1 = examplePresentation
         \<and> Holder vp2 = doc_ID didDoc)
   \<and> createAndSignPresentationByID exampleCommand exampleCredential docTwoAuth ''Ed25519Signature2018'' =
       Inr ''holder=+''
   \<and> (\<exists>vp0 ctx vp2.
         Credential_Presentation exampleCommand exampleCredential = Inr vp0
         \<and> AddLinkedDataProof exampleCommand vp0 ctx = Inr vp2
         \<and> MarshalJSON exampleCommand vp2 = Inr ''holder=+''
         \<and> Holder vp2 = Holder vp0)"
proof -
  note inst = GeneratePresentation_holder
    [of exampleCommand requestWithPresentation "''holder=did:example:123+''"
      "[]" "Some examplePresentation" "''did:example:123''" optsAllSet "''holder=did:example:123+''"
      exampleCredential docTwoAuth "''Ed25519Signature2018''" "''holder=+''"]
  have novc: "req_VerifiableCredentials requestWithPresentation = []"
    by (simp add: requestWithPresentation_def)
  have given: "NewUnverifiedPresentation exampleCommand (req_Presentation requestWithPresentation) =
      Inr examplePresentation"
    by (simp add: requestWithPresentation_def exampleCommand_def)
  have holder: "Holder examplePresentation \<noteq> ''did:example:123''"
    by (simp add: examplePresentation_def)
  from inst GeneratePresentation_example novc given exampleCommand_keepsHolder
  have a: "\<exists>didDoc vp1 ctx vp2.
         (VDRIRegistry_Resolve exampleCommand (req_DID requestWithPresentation) = Inr didDoc
          \<or> (\<exists>e. VDRIRegistry_Resolve exampleCommand (req_DID requestWithPresentation) = Inl e)
             \<and> didStore_GetDID exampleCommand (req_DID requestWithPresentation) = Inr didDoc)
         \<and> AddLinkedDataProof exampleCommand (vp1\<lparr>Holder := doc_ID didDoc\<rparr>) ctx = Inr vp2
         \<and> MarshalJSON exampleCommand vp2 = Inr ''holder=did:example:123+''
         \<and> vp1 = examplePresentation
         \<and> Holder vp2 = doc_ID didDoc"
    by (metis Inr_inject)
  from inst createAndSignPresentationByID_example exampleCommand_keepsHolder
  have b: "\<exists>vp0 ctx vp2.
         Credential_Presentation exampleCommand exampleCredential = Inr vp0
         \<and> AddLinkedDataProof exampleCommand vp0 ctx = Inr vp2
         \<and> MarshalJSON exampleCommand vp2 = Inr ''holder=+''
         \<and> Holder vp2 = Holder vp0"
    by blast
  from GeneratePresentation_example createAndSignPresentationByID_example holder
    exampleCommand_keepsHolder a b
  show ?thesis by blast
qed

section \<open>Properties of JSON members\<close>

lemma map_of_setField: "map_of (setField k v ms) = (map_of ms)(k \<mapsto> v)"
  by (induction ms) (auto simp: fun_eq_iff)

lemma setField_same: "map_of ms k = Some v \<Longrightarrow> setField k v ms = ms"
  by (induction ms) (auto split: if_splits)

section \<open>Properties of the proof collection\<close>

lemma addProof_Inr:
  "addProof eng ctx doc proofs = Inr proofs' \<Longrightarrow> \<exists>p. proofs' = proofs @ [p]"
  by (auto simp: addProof_def split: sum.splits)

lemma verifyProofs_all:
  "verifyProofs chk doc ps = Inr () \<longleftrightarrow> (\<forall>p \<in> set ps. verifyProof chk doc p = Inr ())"
  by (induction ps) (auto split: sum.splits)

lemma verifyProofs_two:
  "verifyProofs chk doc [p1, p2] = Inr () \<longleftrightarrow>
     verifyProof chk doc p1 = Inr () \<and> verifyProof chk doc p2 = Inr ()"
  by (simp add: verifyProofs_all del: verifyProofs.simps)

lemma proofField_two: "proofField [p1, p2] = ProofList [p1, p2]"
  by (simp add: proofField_def)

lemma proofField_one: "proofField [p1] = SingleProof p1"
  by (simp add: proofField_def)

lemma Credential_second_proof:
  assumes "vc_Proofs vc = [p1]"
    and "Credential_AddLinkedDataProof eng vc ctx = Inr vc'"
  shows "\<exists>p2. vc_Proofs vc' = [p1, p2] \<and> vc' = vc\<lparr>vc_Proofs := [p1, p2]\<rparr>"
proof -
  from assms obtain proofs where
    added: "addProof eng ctx vc [p1] = Inr proofs" and vc': "vc' = vc\<lparr>vc_Proofs := proofs\<rparr>"
    by (auto simp: Credential_AddLinkedDataProof_def split: sum.splits)
  from addProof_Inr [OF added] obtain p2 where "proofs = [p1, p2]" by auto
  with vc' show ?thesis by simp
qed

lemma Presentation_second_proof:
  assumes "vp_Proofs vp = [p1]"
    and "Presentation_AddLinkedDataProof eng vp ctx = Inr vp'"
  shows "\<exists>p2. vp_Proofs vp' = [p1, p2] \<and> vp' = vp\<lparr>vp_Proofs := [p1, p2]\<rparr>"
proof -
  from assms obtain proofs where
    added: "addProof eng ctx vp [p1] = Inr proofs" and vp': "vp' = vp\<lparr>vp_Proofs := proofs\<rparr>"
    by (auto simp: Presentation_AddLinkedDataProof_def split: sum.splits)
  from addProof_Inr [OF added] obtain p2 where "proofs = [p1, p2]" by auto
  with vp' show ?thesis by simp
qed

text \<open>
  Claim C5. For every document (credential or presentation) that carries exactly one proof,
  adding a second proof turns the proof field from the single proof object into the
  two-element list of the first-added proof followed by the second-added one, and the
  verification of the resulting document succeeds exactly when each of the two proofs
  verifies on its own (each against the key fetched for its own declared verification
  method).
\<close>

theorem second_proof_accumulates:
  "(vc_Proofs vc = [p1] \<and> Credential_AddLinkedDataProof eng vc ctx = Inr vc' \<longrightarrow>
      proofField (vc_Proofs vc) = SingleProof p1
      \<and> (\<exists>p2. vc_Proofs vc' = [p1, p2]
            \<and> proofField (vc_Proofs vc') = ProofList [p1, p2]
            \<and> (Credential_verify chk vc' = Inr () \<longleftrightarrow>
                 verifyProof chk vc' p1 = Inr () \<and> verifyProof chk vc' p2 = Inr ())))
   \<and> (vp_Proofs vp = [q1] \<and> Presentation_AddLinkedDataProof peng vp pctx = Inr vp' \<longrightarrow>
        proofField (vp_Proofs vp) = SingleProof q1
        \<and> (\<exists>q2. vp_Proofs vp' = [q1, q2]
              \<and> proofField (vp_Proofs vp') = ProofList [q1, q2]
              \<and> (Presentation_verify pchk vp' = Inr () \<longleftrightarrow>
                   verifyProof pchk vp' q1 = Inr () \<and> verifyProof pchk vp' q2 = Inr ())))"
proof (intro conjI impI)
  assume a: "vc_Proofs vc = [p1] \<and> Credential_AddLinkedDataProof eng vc ctx = Inr vc'"
  then show "proofField (vc_Proofs vc) = SingleProof p1"
    by (simp add: proofField_one)
  from a Credential_second_proof [of vc p1 eng ctx vc']
  obtain p2 where two: "vc_Proofs vc' = [p1, p2]" by blast
  have "Credential_verify chk vc' = Inr () \<longleftrightarrow>
      verifyProof chk vc' p1 = Inr () \<and> verifyProof chk vc' p2 = Inr ()"
    unfolding Credential_verify_def two by (rule verifyProofs_two)
  with two show "\<exists>p2. vc_Proofs vc' = [p1, p2]
            \<and> proofField (vc_Proofs vc') = ProofList [p1, p2]
            \<and> (Credential_verify chk vc' = Inr () \<longleftrightarrow>
                 verifyProof chk vc' p1 = Inr () \<and> verifyProof chk vc' p2 = Inr ())"
    by (auto simp: proofField_two)
next
  assume a: "vp_Proofs vp = [q1] \<and> Presentation_AddLinkedDataProof peng vp pctx = Inr vp'"
  then show "proofField (vp_Proofs vp) = SingleProof q1"
    by (simp add: proofField_one)
  from a Presentation_second_proof [of vp q1 peng pctx vp']
  obtain q2 where two: "vp_Proofs vp' = [q1, q2]" by blast
  have "Presentation_verify pchk vp' = Inr () \<longleftrightarrow>
      verifyProof pchk vp' q1 = Inr () \<and> verifyProof pchk vp' q2 = Inr ()"
    unfolding Presentation_verify_def two by (rule verifyProofs_two)
  with two show "\<exists>q2. vp_Proofs vp' = [q1, q2]
              \<and> proofField (vp_Proofs vp') = ProofList [q1, q2]
              \<and> (Presentation_verify pchk vp' = Inr () \<longleftrightarrow>
                   verifyProof pchk vp' q1 = Inr () \<and> verifyProof pchk vp' q2 = Inr ())"
    by (auto simp: proofField_two)
qed

lemma example_second_proof:
  "Credential_AddLinkedDataProof exampleCredentialEngine exampleCredential1 exampleContext2 =
     Inr exampleCredential2"
  by (simp add: Credential_AddLinkedDataProof_def addProof_def exampleCredentialEngine_def
      exampleCredential1_def exampleCredential2_def exampleContext2_def suiteSigner_def Sign_def
      buildProof_def exampleProof2_def exampleCredential_def)

lemma example_verify_first: "verifyProof exampleChecker exampleCredential2 exampleProof1 = Inr ()"
  by (simp add: verifyProof_def proofSignature_def exampleChecker_def exampleProof1_def
      exampleCredential2_def exampleCredential_def)

lemma example_verify_second: "verifyProof exampleChecker exampleCredential2 exampleProof2 = Inr ()"
  by (simp add: verifyProof_def proofSignature_def exampleChecker_def exampleProof2_def
      exampleCredential2_def exampleCredential_def)

lemma example_presentation_second_proof:
  "Presentation_AddLinkedDataProof exampleEngine examplePresentation1 exampleContext2 =
     Inr (examplePresentation\<lparr>vp_Proofs := [exampleProof1,
       [(''created'', JString ''2010-01-01T19:23:24Z''),
        (''jws'', JString ''header..key2:vp:did:example:ebfeb1f712ebc6f1c276e12ec21''),
        (''proofPurpose'', JString ''assertionMethod''),
        (''type'', JString ''JsonWebSignature2020''),
        (''verificationMethod'', JString ''did:example:123456#key2'')]]\<rparr>)"
  by (simp add: Presentation_AddLinkedDataProof_def addProof_def exampleEngine_def
      examplePresentation1_def exampleContext2_def suiteSigner_def Sign_def
      buildProof_def examplePresentation_def)

text \<open>
  The theorem at the example credential carrying its Ed25519 proof, to which the
  \<open>JsonWebSignature2020\<close> proof of \<open>#key2\<close> is added: both verify, and so does the
  credential.
\<close>

theorem second_proof_accumulates_witness:
  "vc_Proofs exampleCredential1 = [exampleProof1]
   \<and> Credential_AddLinkedDataProof exampleCredentialEngine exampleCredential1 exampleContext2 =
       Inr exampleCredential2
   \<and> proofField (vc_Proofs exampleCredential1) = SingleProof exampleProof1
   \<and> proofField (vc_Proofs exampleCredential2) = ProofList [exampleProof1, exampleProof2]
   \<and> Credential_verify exampleChecker exampleCredential2 = Inr ()
   \<and> vp_Proofs examplePresentation1 = [exampleProof1]
   \<and> proofField (vp_Proofs examplePresentation1) = SingleProof exampleProof1"
proof -
  have one: "vc_Proofs exampleCredential1 = [exampleProof1]"
    by (simp add: exampleCredential1_def)
  have pone: "vp_Proofs examplePresentation1 = [exampleProof1]"
    by (simp add: examplePresentation1_def)
  have two: "vc_Proofs exampleCredential2 = [exampleProof1, exampleProof2]"
    by (simp add: exampleCredential2_def)
  note inst = second_proof_accumulates
    [of exampleCredential1 exampleProof1 exampleCredentialEngine exampleContext2 exampleCredential2
      exampleChecker examplePresentation1 exampleProof1 exampleEngine exampleContext2]
  from inst one example_second_proof two
  have verify: "Credential_verify exampleChecker exampleCredential2 = Inr () \<longleftrightarrow>
      verifyProof exampleChecker exampleCredential2 exampleProof1 = Inr ()
      \<and> verifyProof exampleChecker exampleCredential2 exampleProof2 = Inr ()"
    by auto
  from inst one example_second_proof
  have single: "proofField (vc_Proofs exampleCredential1) = SingleProof exampleProof1"
    by blast
  from inst pone example_presentation_second_proof
  have psingle: "proofField (vp_Proofs examplePresentation1) = SingleProof exampleProof1"
    by blast
  from inst one example_second_proof two
  have list: "proofField (vc_Proofs exampleCredential2) = ProofList [exampleProof1, exampleProof2]"
    by auto
  from verify example_verify_first example_verify_second
  have ok: "Credential_verify exampleChecker exampleCredential2 = Inr ()"
    by simp
  from one pone example_second_proof single list ok psingle show ?thesis
    by simp
qed

section \<open>Properties of selective disclosure\<close>

lemma revealFields_keys:
  "map fst (revealFields ex node ms) =
     filter (\<lambda>k. map_of node k \<noteq> None \<or> \<not> ex \<or> mandatoryField k) (map fst ms)"
  by (induction ms) (auto split: option.splits)

lemma revealFields_map_of:
  "map_of (revealFields ex node ms) k =
     (case map_of ms k of
        None \<Rightarrow> None
      | Some v \<Rightarrow>
          (case map_of node k of
             Some r \<Rightarrow> Some (reveal r v)
           | None \<Rightarrow> if ex \<and> \<not> mandatoryField k then None else Some v))"
  by (induction ms) (auto split: option.splits)

lemma revealFields_no_node: "revealFields False [] ms = ms"
  by (induction ms) auto

lemma reveal_wildcard: "reveal (JObject []) v = v"
  by (cases v) (simp_all add: isExplicit_def revealFields_no_node)

lemma deriveProof_shape:
  assumes "deriveProof bbs statements indices nonce p = Inr p'"
  shows "\<exists>derived. p' = setField ''nonce'' (JString (base64 nonce))
            (setField ''proofValue'' (JString (base64 derived))
              (setField ''type'' (JString ''BbsBlsSignatureProof2020'') p))"
  using assms
  by (auto simp: deriveProof_def split: option.splits json.splits list.splits sum.splits)

lemma deriveProof_type:
  assumes "deriveProof bbs statements indices nonce p = Inr p'"
  shows "map_of p' ''type'' = Some (JString ''BbsBlsSignatureProof2020'')"
  using deriveProof_shape [OF assms] by (auto simp: map_of_setField)

lemma deriveProof_nonce:
  assumes "deriveProof bbs statements indices nonce p = Inr p'"
  shows "map_of p' ''nonce'' = Some (JString (base64 nonce))"
  using deriveProof_shape [OF assms] by (auto simp: map_of_setField)

lemma deriveProof_proofValue:
  assumes "deriveProof bbs statements indices nonce p = Inr p'"
  shows "\<exists>derived. map_of p' ''proofValue'' = Some (JString (base64 derived))"
  using deriveProof_shape [OF assms] by (auto simp: map_of_setField)

lemma deriveProof_other_members:
  assumes "deriveProof bbs statements indices nonce p = Inr p'"
    and "k \<noteq> ''type''" "k \<noteq> ''nonce''" "k \<noteq> ''proofValue''"
  shows "map_of p' k = map_of p k"
  using deriveProof_shape [OF assms(1)] assms(2-) by (auto simp: map_of_setField)

lemma deriveProofs_single:
  "deriveProofs bbs statements indices nonce [p] = Inr ps \<Longrightarrow>
     \<exists>p'. ps = [p'] \<and> deriveProof bbs statements indices nonce p = Inr p'"
  by (auto split: sum.splits)

lemma GenerateBBSSelectiveDisclosure_Inr:
  assumes "GenerateBBSSelectiveDisclosure bbs vc revealDoc nonce = Inr vc'"
  shows "\<exists>reduced statements indices proofs.
           revealCredential revealDoc vc = Inr reduced
           \<and> deriveProofs bbs statements indices nonce (filter isBBSProof (vc_Proofs vc)) = Inr proofs
           \<and> vc' = reduced\<lparr>vc_Proofs := proofs\<rparr>"
  using assms
  by (auto simp: GenerateBBSSelectiveDisclosure_def split: if_splits sum.splits)

lemma revealCredential_subject:
  assumes "revealCredential (JObject node) vc = Inr reduced"
    and "map_of node ''credentialSubject'' = Some r"
  shows "vc_Subject reduced = reveal r (vc_Subject vc)"
  using assms by (auto simp: revealCredential_def Let_def)

lemma revealFields_explicit_keys:
  assumes only: "\<forall>k. map_of snode k \<noteq> None \<longrightarrow> k \<in> K \<or> mandatoryField k \<or> k = kw"
    and marked: "\<forall>k \<in> K. map_of snode k = Some (JObject [])"
    and no_keyword: "kw \<notin> fst ` set ms"
  shows "map fst (revealFields True snode ms) = filter (\<lambda>k. k \<in> K \<or> mandatoryField k) (map fst ms)"
proof -
  have keep: "(map_of snode k \<noteq> None \<or> \<not> True \<or> mandatoryField k) = (k \<in> K \<or> mandatoryField k)"
    if "k \<in> set (map fst ms)" for k
  proof -
    from that no_keyword have "k \<noteq> kw" by force
    with only marked show ?thesis by force
  qed
  show ?thesis
    unfolding revealFields_keys
    by (rule filter_cong [OF refl]) (rule keep)
qed

lemma revealFields_explicit_values:
  assumes "map_of snode k = Some (JObject [])"
  shows "map_of (revealFields ex snode ms) k = map_of ms k"
  using assms by (simp add: revealFields_map_of reveal_wildcard split: option.splits)

text \<open>
  The derivation for any set \<open>K\<close> of fields that the reveal document enumerates under an
  explicit \<open>credentialSubject\<close>, each with \<open>{}\<close>: the derived subject has the fields of
  the source subject that are in \<open>K\<close> or are \<open>id\<close> or \<open>type\<close>, in the source's
  order, with the values of the fields in \<open>K\<close> unchanged.
\<close>

lemma selective_disclosure_general:
  assumes derived: "GenerateBBSSelectiveDisclosure bbs vc (JObject node) nonce = Inr vc'"
    and subject: "vc_Subject vc = JObject ms"
    and no_keyword: "''@explicit'' \<notin> fst ` set ms"
    and snode: "map_of node ''credentialSubject'' = Some (JObject snode)"
    and explicit: "isExplicit snode"
    and only: "\<forall>k. map_of snode k \<noteq> None \<longrightarrow> k \<in> K \<or> mandatoryField k \<or> k = ''@explicit''"
    and marked: "\<forall>k \<in> K. map_of snode k = Some (JObject [])"
    and one_bbs: "filter isBBSProof (vc_Proofs vc) = [p]"
  shows "(\<exists>ms'. vc_Subject vc' = JObject ms'
            \<and> map fst ms' = filter (\<lambda>k. k \<in> K \<or> mandatoryField k) (map fst ms)
            \<and> (\<forall>k \<in> K. map_of ms' k = map_of ms k))
       \<and> (\<exists>p'. vc_Proofs vc' = [p']
             \<and> map_of p' ''type'' = Some (JString ''BbsBlsSignatureProof2020'')
             \<and> map_of p' ''nonce'' = Some (JString (base64 nonce))
             \<and> (\<exists>derived. map_of p' ''proofValue'' = Some (JString (base64 derived))))"
proof -
  from GenerateBBSSelectiveDisclosure_Inr [OF derived] obtain reduced statements indices proofs where
    reduced: "revealCredential (JObject node) vc = Inr reduced"
    and proofs: "deriveProofs bbs statements indices nonce (filter isBBSProof (vc_Proofs vc)) = Inr proofs"
    and vc': "vc' = reduced\<lparr>vc_Proofs := proofs\<rparr>"
    by blast
  define ms' where "ms' = revealFields True snode ms"
  from revealCredential_subject [OF reduced snode] subject explicit vc'
  have subj: "vc_Subject vc' = JObject ms'"
    by (simp add: ms'_def)
  have keys: "map fst ms' = filter (\<lambda>k. k \<in> K \<or> mandatoryField k) (map fst ms)"
    unfolding ms'_def by (rule revealFields_explicit_keys [OF only marked no_keyword])
  have vals: "\<forall>k \<in> K. map_of ms' k = map_of ms k"
    unfolding ms'_def using marked by (simp add: revealFields_explicit_values)
  from proofs one_bbs deriveProofs_single [of bbs statements indices nonce p proofs]
  obtain p' where p': "proofs = [p']" "deriveProof bbs statements indices nonce p = Inr p'"
    by auto
  from p'(1) vc' have single: "vc_Proofs vc' = [p']" by simp
  from single
    deriveProof_type [OF p'(2)] deriveProof_nonce [OF p'(2)] deriveProof_proofValue [OF p'(2)]
  have derived_proof: "\<exists>p'. vc_Proofs vc' = [p']
             \<and> map_of p' ''type'' = Some (JString ''BbsBlsSignatureProof2020'')
             \<and> map_of p' ''nonce'' = Some (JString (base64 nonce))
             \<and> (\<exists>derived. map_of p' ''proofValue'' = Some (JString (base64 derived)))"
    by (intro exI [of _ p'] conjI)
  from subj keys vals have "\<exists>ms'. vc_Subject vc' = JObject ms'
            \<and> map fst ms' = filter (\<lambda>k. k \<in> K \<or> mandatoryField k) (map fst ms)
            \<and> (\<forall>k \<in> K. map_of ms' k = map_of ms k)"
    by (intro exI [of _ ms'] conjI)
  then show ?thesis using derived_proof by (rule conjI)
qed

text \<open>
  Claim C6. Given a credential with one BBS+ proof and a reveal document whose
  \<open>credentialSubject\<close> node is explicit and enumerates only \<open>givenName\<close>,
  \<open>familyName\<close> and \<open>gender\<close> (beside \<open>id\<close>, \<open>type\<close> and the \<open>@explicit\<close> flag
  itself), a successful derivation gives a document whose subject holds exactly those three
  fields, with their values, plus \<open>id\<close> and \<open>type\<close> where the source has them, and
  none of the other subject fields; its single proof has the type
  \<open>BbsBlsSignatureProof2020\<close>, the base64 encoding of the supplied nonce under \<open>nonce\<close>
  and a base64 value under \<open>proofValue\<close>.
\<close>

theorem selective_disclosure_subject:
  assumes "GenerateBBSSelectiveDisclosure bbs vc (JObject node) nonce = Inr vc'"
    and "vc_Subject vc = JObject ms"
    and "''@explicit'' \<notin> fst ` set ms"
    and "map_of node ''credentialSubject'' = Some (JObject snode)"
    and "isExplicit snode"
    and "\<forall>k. map_of snode k \<noteq> None \<longrightarrow>
           k \<in> {''givenName'', ''familyName'', ''gender''} \<or> mandatoryField k \<or> k = ''@explicit''"
    and "\<forall>k \<in> {''givenName'', ''familyName'', ''gender''}. map_of snode k = Some (JObject [])"
    and "filter isBBSProof (vc_Proofs vc) = [p]"
  shows "(\<exists>ms'. vc_Subject vc' = JObject ms'
            \<and> map fst ms' =
                filter (\<lambda>k. k \<in> {''givenName'', ''familyName'', ''gender''} \<or> mandatoryField k) (map fst ms)
            \<and> (\<forall>k \<in> {''givenName'', ''familyName'', ''gender''}. map_of ms' k = map_of ms k))
       \<and> (\<exists>p'. vc_Proofs vc' = [p']
             \<and> map_of p' ''type'' = Some (JString ''BbsBlsSignatureProof2020'')
             \<and> map_of p' ''nonce'' = Some (JString (base64 nonce))
             \<and> (\<exists>derived. map_of p' ''proofValue'' = Some (JString (base64 derived))))"
  using assms by (rule selective_disclosure_general)

lemma base64_nonce: "base64 ''some nonce'' = ''c29tZSBub25jZQ==''"
  by code_simp

lemma example_disclosure:
  "GenerateBBSSelectiveDisclosure exampleBBS residentCard (JObject revealDocNode) ''some nonce'' =
     Inr derivedResidentCard"
  by code_simp

lemma example_subject:
  "vc_Subject residentCard =
     JObject [(''id'', JString ''did:example:b34ca6cd37bbf23''),
              (''type'', JArray [JString ''PermanentResident'', JString ''Person'']),
              (''givenName'', JString ''JOHN''),
              (''familyName'', JString ''SMITH''),
              (''gender'', JString ''Male''),
              (''image'', JString ''data:image/png;base64,iVBORw0KGgokJggg==''),
              (''residentSince'', JString ''2015-01-01''),
              (''lprCategory'', JString ''C09''),
              (''lprNumber'', JString ''999-999-999''),
              (''commuterClassification'', JString ''C1''),
              (''birthCountry'', JString ''Bahamas''),
              (''birthDate'', JString ''1958-07-17'')]"
  by (simp add: residentCard_def)

lemma example_reveal_only:
  "\<forall>k. map_of subjectRevealNode k \<noteq> None \<longrightarrow>
     k \<in> {''givenName'', ''familyName'', ''gender''} \<or> mandatoryField k \<or> k = ''@explicit''"
  by (simp add: subjectRevealNode_def mandatoryField_def)

lemma example_reveal_marked:
  "\<forall>k \<in> {''givenName'', ''familyName'', ''gender''}. map_of subjectRevealNode k = Some (JObject [])"
  by (simp add: subjectRevealNode_def)

lemma example_one_bbs: "filter isBBSProof (vc_Proofs residentCard) = [bbsExampleProof]"
  by (simp add: residentCard_def isBBSProof_def bbsExampleProof_def)

text \<open>
  The theorem at the permanent-resident card, the reveal document and the nonce
  \<open>some nonce\<close> of the example: the derived subject has \<open>id\<close>, \<open>type\<close>,
  \<open>givenName\<close>, \<open>familyName\<close> and \<open>gender\<close> (no \<open>birthDate\<close>, \<open>lprNumber\<close>
  or \<open>image\<close>), and the proof carries the nonce as \<open>c29tZSBub25jZQ==\<close>, as the example
  prints.
\<close>

theorem selective_disclosure_subject_witness:
  "GenerateBBSSelectiveDisclosure exampleBBS residentCard (JObject revealDocNode) ''some nonce'' =
     Inr derivedResidentCard
   \<and> (\<exists>ms'. vc_Subject derivedResidentCard = JObject ms'
         \<and> map fst ms' = [''id'', ''type'', ''givenName'', ''familyName'', ''gender'']
         \<and> map_of ms' ''givenName'' = Some (JString ''JOHN'')
         \<and> map_of ms' ''familyName'' = Some (JString ''SMITH'')
         \<and> map_of ms' ''gender'' = Some (JString ''Male''))
   \<and> (\<exists>p'. vc_Proofs derivedResidentCard = [p']
         \<and> map_of p' ''type'' = Some (JString ''BbsBlsSignatureProof2020'')
         \<and> map_of p' ''nonce'' = Some (JString ''c29tZSBub25jZQ=='')
         \<and> (\<exists>derived. map_of p' ''proofValue'' = Some (JString (base64 derived))))"
proof -
  have no_keyword: "''@explicit'' \<notin> fst ` set
     [(''id'', JString ''did:example:b34ca6cd37bbf23''),
      (''type'', JArray [JString ''PermanentResident'', JString ''Person'']),
      (''givenName'', JString ''JOHN''),
      (''familyName'', JString ''SMITH''),
      (''gender'', JString ''Male''),
      (''image'', JString ''data:image/png;base64,iVBORw0KGgokJggg==''),
      (''residentSince'', JString ''2015-01-01''),
      (''lprCategory'', JString ''C09''),
      (''lprNumber'', JString ''999-999-999''),
      (''commuterClassification'', JString ''C1''),
      (''birthCountry'', JString ''Bahamas''),
      (''birthDate'', JString ''1958-07-17'')]"
    by simp
  have snode: "map_of revealDocNode ''credentialSubject'' = Some (JObject subjectRevealNode)"
    by (simp add: revealDocNode_def)
  have explicit: "isExplicit subjectRevealNode"
    by (simp add: isExplicit_def subjectRevealNode_def)
  note inst = selective_disclosure_subject
    [OF example_disclosure example_subject no_keyword snode explicit
      example_reveal_only example_reveal_marked example_one_bbs]
  from inst obtain ms' where
    subj: "vc_Subject derivedResidentCard = JObject ms'"
    and keys: "map fst ms' =
      filter (\<lambda>k. k \<in> {''givenName'', ''familyName'', ''gender''} \<or> mandatoryField k)
        (map fst [(''id'', JString ''did:example:b34ca6cd37bbf23''),
      (''type'', JArray [JString ''PermanentResident'', JString ''Person'']),
      (''givenName'', JString ''JOHN''),
      (''familyName'', JString ''SMITH''),
      (''gender'', JString ''Male''),
      (''image'', JString ''data:image/png;base64,iVBORw0KGgokJggg==''),
      (''residentSince'', JString ''2015-01-01''),
      (''lprCategory'', JString ''C09''),
      (''lprNumber'', JString ''999-999-999''),
      (''commuterClassification'', JString ''C1''),
      (''birthCountry'', JString ''Bahamas''),
      (''birthDate'', JString ''1958-07-17'')])"
    and vals: "\<forall>k \<in> {''givenName'', ''familyName'', ''gender''}. map_of ms' k =
      map_of [(''id'', JString ''did:example:b34ca6cd37bbf23''),
      (''type'', JArray [JString ''PermanentResident'', JString ''Person'']),
      (''givenName'', JString ''JOHN''),
      (''familyName'', JString ''SMITH''),
      (''gender'', JString ''Male''),
      (''image'', JString ''data:image/png;base64,iVBORw0KGgokJggg==''),
      (''residentSince'', JString ''2015-01-01''),
      (''lprCategory'', JString ''C09''),
      (''lprNumber'', JString ''999-999-999''),
      (''commuterClassification'', JString ''C1''),
      (''birthCountry'', JString ''Bahamas''),
      (''birthDate'', JString ''1958-07-17'')] k"
    by (elim conjE exE)
  from keys have keys': "map fst ms' = [''id'', ''type'', ''givenName'', ''familyName'', ''gender'']"
    by (simp add: mandatoryField_def)
  from vals have v1: "map_of ms' ''givenName'' = Some (JString ''JOHN'')"
    by simp
  from vals have v2: "map_of ms' ''familyName'' = Some (JString ''SMITH'')"
    by simp
  from vals have v3: "map_of ms' ''gender'' = Some (JString ''Male'')"
    by simp
  from subj keys' v1 v2 v3
  have subject: "\<exists>ms'. vc_Subject derivedResidentCard = JObject ms'
         \<and> map fst ms' = [''id'', ''type'', ''givenName'', ''familyName'', ''gender'']
         \<and> map_of ms' ''givenName'' = Some (JString ''JOHN'')
         \<and> map_of ms' ''familyName'' = Some (JString ''SMITH'')
         \<and> map_of ms' ''gender'' = Some (JString ''Male'')"
    by (intro exI [of _ ms'] conjI)
  from inst have derived_proof: "\<exists>p'. vc_Proofs derivedResidentCard = [p']
         \<and> map_of p' ''type'' = Some (JString ''BbsBlsSignatureProof2020'')
         \<and> map_of p' ''nonce'' = Some (JString ''c29tZSBub25jZQ=='')
         \<and> (\<exists>derived. map_of p' ''proofValue'' = Some (JString (base64 derived)))"
    unfolding base64_nonce by (rule conjunct2)
  from example_disclosure subject derived_proof show ?thesis
    by (intro conjI)
qed

section \<open>Properties of the JWT claims\<close>

lemma setSubjectID_subjectID:
  "subjectID subject \<noteq> '''' \<Longrightarrow> setSubjectID (subjectID subject) subject = subject"
  by (auto simp: subjectID_def setSubjectID_def setField_same
      split: json.splits option.splits)

text \<open>
  Merging the claims of a credential gives the credential back, with the nested credential in
  full or reduced: every field the registered claims carry is restored from them.
\<close>

lemma mergeClaims_JWTClaims: "mergeClaims (JWTClaims vc minimizeVC) = vc"
proof (cases vc)
  case (fields ctx ident types subj issuer issued expired schemas custom proofs)
  have subject: "subjectID subj \<noteq> '''' \<Longrightarrow> setSubjectID (subjectID subj) subj = subj"
    by (rule setSubjectID_subjectID)
  show ?thesis
    unfolding fields
    by (cases issuer; cases issued; cases expired; cases minimizeVC)
       (simp_all add: mergeClaims_def JWTClaims_def Let_def subject)
qed

lemma MarshalJWS_Inr:
  assumes "MarshalJWS codec claims alg signer keyID = Inr jws"
  shows "\<exists>signature.
           signer (jwt_SigningInput codec \<lparr>hdr_alg = alg, hdr_kid = keyID, hdr_typ = ''JWT''\<rparr> claims)
             = Inr signature
           \<and> jws = CompactJWS \<lparr>hdr_alg = alg, hdr_kid = keyID, hdr_typ = ''JWT''\<rparr> claims signature"
  using assms by (auto simp: MarshalJWS_def Let_def split: sum.splits)

text \<open>
  Claim C4. For every credential \<open>X\<close>, whenever signing its claims gives a JWS and the
  fetcher returns, for \<open>X\<close>'s issuer and the key id, a key that verifies what the signer
  signs, parsing that JWS gives \<open>X\<close> back: issuer id, subject id, issuance date (through
  \<open>nbf\<close>), expiration date (through \<open>exp\<close>), credential id (through \<open>jti\<close>),
  contexts, types, subject payload and the rest of the credential are unchanged; so does
  parsing with verification disabled. A field that stands beside the credential in an
  embedding struct is not in the claims: every embedding struct around \<open>X\<close> gives the same
  JWS, whatever its reference number, so that parsing cannot reproduce it.
\<close>

theorem jwt_claims_round_trip:
  assumes signed: "MarshalJWS codec (JWTClaims vc minimizeVC) alg signer keyID = Inr jws"
    and fetched: "fetch (iss_ID (vc_Issuer vc)) keyID = Inr publicKey"
    and verifies: "\<forall>data signature. signer data = Inr signature \<longrightarrow>
                     jwt_Verify codec alg publicKey data signature"
  shows "ParseCredential codec jws (WithPublicKeyFetcher fetch) = Inr vc
     \<and> ParseCredential codec jws WithDisabledProofCheck = Inr vc
     \<and> (\<forall>udc. udc_Credential udc = vc \<longrightarrow>
           MarshalJWS codec (UniversityDegreeCredential_JWTClaims udc minimizeVC) alg signer keyID = Inr jws)"
proof -
  let ?header = "\<lparr>hdr_alg = alg, hdr_kid = keyID, hdr_typ = ''JWT''\<rparr>"
  let ?claims = "JWTClaims vc minimizeVC"
  from MarshalJWS_Inr [OF signed] obtain signature where
    sig: "signer (jwt_SigningInput codec ?header ?claims) = Inr signature"
    and jws: "jws = CompactJWS ?header ?claims signature"
    by blast
  from verifies sig have ok: "jwt_Verify codec alg publicKey (jwt_SigningInput codec ?header ?claims) signature"
    by blast
  have iss: "claims_iss ?claims = iss_ID (vc_Issuer vc)"
    by (simp add: JWTClaims_def)
  have a: "ParseCredential codec jws (WithPublicKeyFetcher fetch) = Inr vc"
    by (simp add: ParseCredential_def jws iss fetched ok mergeClaims_JWTClaims)
  have b: "ParseCredential codec jws WithDisabledProofCheck = Inr vc"
    by (simp add: ParseCredential_def jws mergeClaims_JWTClaims)
  have c: "\<forall>udc. udc_Credential udc = vc \<longrightarrow>
           MarshalJWS codec (UniversityDegreeCredential_JWTClaims udc minimizeVC) alg signer keyID = Inr jws"
    using signed by (simp add: UniversityDegreeCredential_JWTClaims_def)
  from a b c show ?thesis by (intro conjI)
qed

lemma example_claims: "JWTClaims embeddedCredential True = exampleClaims"
  by (simp add: JWTClaims_def embeddedCredential_def exampleCredential_def exampleClaims_def
      subjectID_def)

lemma example_jws:
  "MarshalJWS exampleCodec (JWTClaims embeddedCredential True) ''EdDSA'' exampleSigner '''' =
     Inr (CompactJWS \<lparr>hdr_alg = ''EdDSA'', hdr_kid = '''', hdr_typ = ''JWT''\<rparr> exampleClaims
            ''issuer-key:EdDSA.http://example.edu/credentials/1872'')"
  unfolding example_claims
  by (simp add: MarshalJWS_def exampleCodec_def exampleSigner_def exampleClaims_def)

text \<open>
  The theorem at the credential of \<open>ExampleCredential_embedding\<close>: its claims are those of
  the example's payload, the parsed credential is the embedded credential, whose extension
  fields are empty, and the struct with another reference number gives the same JWS.
\<close>

theorem jwt_claims_round_trip_witness:
  "MarshalJWS exampleCodec (JWTClaims embeddedCredential True) ''EdDSA'' exampleSigner '''' =
     Inr (CompactJWS \<lparr>hdr_alg = ''EdDSA'', hdr_kid = '''', hdr_typ = ''JWT''\<rparr> exampleClaims
            ''issuer-key:EdDSA.http://example.edu/credentials/1872'')
   \<and> ParseCredential exampleCodec
         (CompactJWS \<lparr>hdr_alg = ''EdDSA'', hdr_kid = '''', hdr_typ = ''JWT''\<rparr> exampleClaims
            ''issuer-key:EdDSA.http://example.edu/credentials/1872'')
         (WithPublicKeyFetcher exampleFetcher) = Inr embeddedCredential
   \<and> MarshalJWS exampleCodec (UniversityDegreeCredential_JWTClaims exampleDegree True)
         ''EdDSA'' exampleSigner '''' =
       Inr (CompactJWS \<lparr>hdr_alg = ''EdDSA'', hdr_kid = '''', hdr_typ = ''JWT''\<rparr> exampleClaims
              ''issuer-key:EdDSA.http://example.edu/credentials/1872'')
   \<and> MarshalJWS exampleCodec
         (UniversityDegreeCredential_JWTClaims (exampleDegree\<lparr>ReferenceNumber := 0\<rparr>) True)
         ''EdDSA'' exampleSigner '''' =
       Inr (CompactJWS \<lparr>hdr_alg = ''EdDSA'', hdr_kid = '''', hdr_typ = ''JWT''\<rparr> exampleClaims
              ''issuer-key:EdDSA.http://example.edu/credentials/1872'')
   \<and> vc_CustomFields embeddedCredential = []"
proof -
  have fetched: "exampleFetcher (iss_ID (vc_Issuer embeddedCredential)) '''' = Inr ''issuer-key''"
    by (simp add: exampleFetcher_def)
  have verifies: "\<forall>data signature. exampleSigner data = Inr signature \<longrightarrow>
      jwt_Verify exampleCodec ''EdDSA'' ''issuer-key'' data signature"
    by (simp add: exampleSigner_def exampleCodec_def)
  note inst = jwt_claims_round_trip
    [where fetch = exampleFetcher and publicKey = "''issuer-key''", OF example_jws fetched verifies]
  have e1: "udc_Credential exampleDegree = embeddedCredential"
    by (simp add: exampleDegree_def)
  have e2: "udc_Credential (exampleDegree\<lparr>ReferenceNumber := 0\<rparr>) = embeddedCredential"
    by (simp add: exampleDegree_def)
  from inst have parse: "ParseCredential exampleCodec
         (CompactJWS \<lparr>hdr_alg = ''EdDSA'', hdr_kid = '''', hdr_typ = ''JWT''\<rparr> exampleClaims
            ''issuer-key:EdDSA.http://example.edu/credentials/1872'')
         (WithPublicKeyFetcher exampleFetcher) = Inr embeddedCredential"
    by (rule conjunct1)
  from inst have lossy: "\<forall>udc. udc_Credential udc = embeddedCredential \<longrightarrow>
      MarshalJWS exampleCodec (UniversityDegreeCredential_JWTClaims udc True) ''EdDSA'' exampleSigner '''' =
       Inr (CompactJWS \<lparr>hdr_alg = ''EdDSA'', hdr_kid = '''', hdr_typ = ''JWT''\<rparr> exampleClaims
              ''issuer-key:EdDSA.http://example.edu/credentials/1872'')"
    by (rule conjunct2 [THEN conjunct2])
  from lossy [rule_format, OF e1] have l1: "MarshalJWS exampleCodec (UniversityDegreeCredential_JWTClaims exampleDegree True)
         ''EdDSA'' exampleSigner '''' =
       Inr (CompactJWS \<lparr>hdr_alg = ''EdDSA'', hdr_kid = '''', hdr_typ = ''JWT''\<rparr> exampleClaims
              ''issuer-key:EdDSA.http://example.edu/credentials/1872'')"
    .
  from lossy [rule_format, OF e2] have l2: "MarshalJWS exampleCodec
         (UniversityDegreeCredential_JWTClaims (exampleDegree\<lparr>ReferenceNumber := 0\<rparr>) True)
         ''EdDSA'' exampleSigner '''' =
       Inr (CompactJWS \<lparr>hdr_alg = ''EdDSA'', hdr_kid = '''', hdr_typ = ''JWT''\<rparr> exampleClaims
              ''issuer-key:EdDSA.http://example.edu/credentials/1872'')"
    .
  have none: "vc_CustomFields embeddedCredential = []"
    by (simp add: embeddedCredential_def)
  from example_jws parse l1 l2 none show ?thesis by (intro conjI)
qed

end
